theory Spec2Isabelle
  imports Complex_Main "HOL-Library.Word"
begin

unbundle bit_operations_syntax

section \<open>JavaScript numbers, typed arrays and errors\<close>

text \<open>
  The two source files, \<^verbatim>\<open>senpaAuth.js\<close> (Variant A) and \<^verbatim>\<open>tricksplit.js\<close>
  (Variant B), are ES modules, hence strict-mode JavaScript. Every number that the
  handshake and the cipher handle is an integer far below \<open>2^53\<close>, so it is modelled as an
  \<^typ>\<open>int\<close>; the 32-bit conversions of the bitwise operators are written out with
  \<^typ>\<open>32 word\<close>. Typed arrays hold \<^typ>\<open>8 word\<close> or \<^typ>\<open>32 word\<close> elements; a
  read outside the array is \<^verbatim>\<open>undefined\<close>, modelled as \<^term>\<open>None\<close>.
\<close>

type_synonym u8 = "8 word"
type_synonym u16 = "16 word"
type_synonym u32 = "32 word"

datatype error = TypeError | RangeError | Error string

text \<open>\<^verbatim>\<open>num | 0\<close>: ToInt32.\<close>

definition to32BitSignedInt :: "int \<Rightarrow> int" where
  "to32BitSignedInt num = sint (word_of_int num :: u32)"

text \<open>\<^verbatim>\<open>a ^ b\<close> on numbers: both operands go through ToInt32, the result is signed.\<close>

definition js_xor :: "int \<Rightarrow> int \<Rightarrow> int" where
  "js_xor a b = sint ((word_of_int a :: u32) XOR word_of_int b)"

text \<open>\<^verbatim>\<open>a >>> n\<close>: ToUint32 of the left operand, the count taken modulo 32.\<close>

definition js_ushr :: "int \<Rightarrow> nat \<Rightarrow> int" where
  "js_ushr a n = uint (drop_bit (n mod 32) (word_of_int a :: u32))"

text \<open>
  A value read from a typed array is a number or \<^verbatim>\<open>undefined\<close>; the bitwise
  operators coerce \<^verbatim>\<open>undefined\<close> to \<open>0\<close> (ToNumber gives NaN, ToInt32 of NaN is 0).
\<close>

fun undefined_as_zero :: "int option \<Rightarrow> int" where
  "undefined_as_zero None = 0"
| "undefined_as_zero (Some n) = n"

text \<open>
  A \<^verbatim>\<open>Uint32Array\<close> over an \<^verbatim>\<open>ArrayBuffer\<close> reads its bytes in platform order,
  little-endian on every platform Node.js runs on.
\<close>

definition u32_of_bytes :: "u8 \<Rightarrow> u8 \<Rightarrow> u8 \<Rightarrow> u8 \<Rightarrow> u32" where
  "u32_of_bytes b0 b1 b2 b3 =
     ucast b0 OR push_bit 8 (ucast b1) OR push_bit 16 (ucast b2) OR push_bit 24 (ucast b3)"

fun u32_view :: "u8 list \<Rightarrow> u32 list" where
  "u32_view (b0 # b1 # b2 # b3 # bs) = u32_of_bytes b0 b1 b2 b3 # u32_view bs"
| "u32_view bs = []"

definition bytes_of_u32 :: "u32 \<Rightarrow> u8 list" where
  "bytes_of_u32 w = [ucast w, ucast (drop_bit 8 w), ucast (drop_bit 16 w), ucast (drop_bit 24 w)]"

definition buffer_of_u32s :: "u32 list \<Rightarrow> u8 list" where
  "buffer_of_u32s ws = concat (map bytes_of_u32 ws)"

section \<open>Values of the bytecode virtual machine\<close>

text \<open>
  The numbers the virtual machine can build by itself are integers (32-bit results, lengths,
  literal zeros), NaN and the two infinities (division by zero). Strings are sequences of
  UTF-16 code units. The arrays of opcode 64 hold numbers only. The three callables and the
  token carrier are references known by name.
\<close>

datatype jsnum = NaN | PosInf | NegInf | Fin int

datatype jsval =
    Undefined
  | Null
  | Num jsnum
  | Str "u16 list"
  | Arr "int list"
  | FnEval
  | FnToString
  | FnIndexOf
  | CarrierRef

definition js_string :: "string \<Rightarrow> u16 list" where
  "js_string s = map of_char s"

text \<open>The token carrier \<^verbatim>\<open>this.CanvasCaptureMediaStreamTrack\<close>: its own properties,
  the most recent assignment first.\<close>

type_synonym carrier = "(u16 list \<times> jsval) list"

section \<open>Variant A: the session of \<^verbatim>\<open>SenpaWasmInstance\<close>\<close>

text \<open>\<^verbatim>\<open>encryptionKeys\<close> is a \<^verbatim>\<open>Uint32Array(8)\<close> until \<^verbatim>\<open>processServerKeys\<close>
  replaces it by the \<^verbatim>\<open>Uint8Array\<close> over the same buffer.\<close>

datatype keyarray = Uint32Keys "u32 list" | Uint8Keys "u8 list"

text \<open>\<^verbatim>\<open>decryptionKeys\<close> is \<^verbatim>\<open>NaN\<close> until \<^verbatim>\<open>processDecryptionKeys\<close> stores a
  \<^verbatim>\<open>Uint8Array\<close>.\<close>

datatype table = TableNaN | Uint8Table "u8 list"

text \<open>
  \<^verbatim>\<open>customMersenneTwister\<close> is \<^verbatim>\<open>NaN\<close> or the closure returned by \<^verbatim>\<open>Lcg64Bit\<close>,
  which owns \<^verbatim>\<open>internalState\<close> and \<^verbatim>\<open>modulo\<close>. The state is a BigInt that starts at
  zero and is only ever multiplied by a positive constant and incremented, and the modulus is
  the length of an array: both are natural numbers.
\<close>

datatype twister = TwisterNaN | Closure (internalState: nat) (modulo: nat)

record session =
  encryptionKeys :: keyarray
  decryptionKeys :: table
  solvedSecret :: jsnum
  CanvasCaptureMediaStreamTrack :: carrier
  customMersenneTwister :: twister
  encryptionEnabled :: bool

definition constructor :: session where
  "constructor =
     \<lparr> encryptionKeys = Uint32Keys [0, 0, 0, 0, 0, 0, 0, 0],
       decryptionKeys = TableNaN,
       solvedSecret = NaN,
       CanvasCaptureMediaStreamTrack = [(js_string ''contextBufferFactory'', Num NaN)],
       customMersenneTwister = TwisterNaN,
       encryptionEnabled = False \<rparr>"

fun keys_length :: "keyarray \<Rightarrow> nat" where
  "keys_length (Uint32Keys ws) = length ws"
| "keys_length (Uint8Keys bs) = length bs"

text \<open>\<^verbatim>\<open>this.encryptionKeys[i]\<close>.\<close>

fun keys_get :: "keyarray \<Rightarrow> nat \<Rightarrow> int option" where
  "keys_get (Uint32Keys ws) i = (if i < length ws then Some (uint (ws ! i)) else None)"
| "keys_get (Uint8Keys bs) i = (if i < length bs then Some (uint (bs ! i)) else None)"

text \<open>\<^verbatim>\<open>this.encryptionKeys[i] = v\<close>: the value is reduced to the element width; a
  store outside the array is ignored.\<close>

fun keys_set :: "keyarray \<Rightarrow> nat \<Rightarrow> int \<Rightarrow> keyarray" where
  "keys_set (Uint32Keys ws) i v = Uint32Keys (if i < length ws then ws[i := word_of_int v] else ws)"
| "keys_set (Uint8Keys bs) i v = Uint8Keys (if i < length bs then bs[i := word_of_int v] else bs)"

text \<open>\<^verbatim>\<open>new Uint8Array(this.encryptionKeys.buffer)\<close>.\<close>

fun keys_buffer :: "keyarray \<Rightarrow> u8 list" where
  "keys_buffer (Uint32Keys ws) = buffer_of_u32s ws"
| "keys_buffer (Uint8Keys bs) = bs"

subsection \<open>The linear congruential generator\<close>

definition multiplier :: nat where
  "multiplier = 6364136223846793005"

definition Lcg64Bit :: "nat \<Rightarrow> twister" where
  "Lcg64Bit m = Closure 0 m"

text \<open>
  One call of \<^verbatim>\<open>computeNextLCGValue\<close>. The new state is stored before the remainder is
  taken, so it is kept also when \<^verbatim>\<open>% BigInt(0)\<close> raises a RangeError; calling the
  field while it still holds \<^verbatim>\<open>NaN\<close> raises a TypeError.
\<close>

fun computeNextLCGValue :: "twister \<Rightarrow> (error + nat) \<times> twister" where
  "computeNextLCGValue TwisterNaN = (Inl TypeError, TwisterNaN)"
| "computeNextLCGValue (Closure st m) =
     (let updatedState = st * multiplier + 1
      in (if m = 0 then Inl RangeError else Inr (drop_bit 33 updatedState mod m),
          Closure updatedState m))"

text \<open>The outputs of \<open>n\<close> successive calls, stopping at the first error.\<close>

fun lcg_calls :: "nat \<Rightarrow> twister \<Rightarrow> error + (nat list \<times> twister)" where
  "lcg_calls 0 t = Inr ([], t)"
| "lcg_calls (Suc n) t =
     (case computeNextLCGValue t of
        (Inl e, t') \<Rightarrow> Inl e
      | (Inr v, t') \<Rightarrow>
          (case lcg_calls n t' of Inl e \<Rightarrow> Inl e | Inr (vs, t'') \<Rightarrow> Inr (v # vs, t'')))"

text \<open>The state after \<open>n\<close> calls, as a function of \<open>n\<close> alone.\<close>

fun lcg_state :: "nat \<Rightarrow> nat" where
  "lcg_state 0 = 0"
| "lcg_state (Suc n) = lcg_state n * multiplier + 1"

subsection \<open>Key derivation on the 16-byte server packet\<close>

text \<open>
  \<^verbatim>\<open>this.decryptionKeys === NaN\<close>, the strict equality that the guard of
  \<^verbatim>\<open>processServerKeys\<close> negates. NaN is strictly equal to nothing, itself included, and a
  \<^verbatim>\<open>Uint8Array\<close> is an object, not a number.
\<close>

fun strictly_equals_NaN :: "table \<Rightarrow> bool" where
  "strictly_equals_NaN TableNaN = False"
| "strictly_equals_NaN (Uint8Table bs) = False"

definition word_at :: "u32 list \<Rightarrow> nat \<Rightarrow> int option" where
  "word_at ws i = (if i < length ws then Some (uint (ws ! i)) else None)"

definition auth_value :: "int option \<Rightarrow> int \<Rightarrow> nat \<Rightarrow> int \<Rightarrow> int" where
  "auth_value incoming primarySeed shift c =
     to32BitSignedInt
       (js_xor
          (js_xor (to32BitSignedInt (undefined_as_zero incoming))
                  (to32BitSignedInt (to32BitSignedInt (js_ushr primarySeed shift))))
          c)"

definition processServerKeys :: "session \<Rightarrow> u8 list \<Rightarrow> error + (u8 list \<times> session)" where
  "processServerKeys s packet =
     (if length packet mod 4 \<noteq> 0 then Inl RangeError
      else
        let incomingPacket = u32_view packet;
            primarySeed =
              to32BitSignedInt
                (js_xor (to32BitSignedInt (undefined_as_zero (keys_get (encryptionKeys s) 0)))
                        (to32BitSignedInt (undefined_as_zero (keys_get (encryptionKeys s) 1))));
            firstAuthValue = auth_value (word_at incomingPacket 0) primarySeed 1 420;
            secondAuthValue = auth_value (word_at incomingPacket 1) primarySeed 2 69;
            thirdAuthValue = auth_value (word_at incomingPacket 2) primarySeed 3 420;
            fourthAuthValue = auth_value (word_at incomingPacket 3) primarySeed 4 69;
            authBuffer =
              [word_of_int firstAuthValue, word_of_int secondAuthValue,
               word_of_int thirdAuthValue, word_of_int fourthAuthValue];
            keys =
              keys_set (keys_set (keys_set (keys_set (encryptionKeys s)
                4 firstAuthValue) 5 secondAuthValue) 6 thirdAuthValue) 7 fourthAuthValue;
            secret =
              to32BitSignedInt
                (js_xor (to32BitSignedInt (undefined_as_zero (keys_get keys 6)))
                        (to32BitSignedInt (undefined_as_zero (keys_get keys 1))));
            bytes = keys_buffer keys
        in Inr (buffer_of_u32s authBuffer,
                s\<lparr> encryptionKeys := Uint8Keys bytes,
                   solvedSecret := Fin secret,
                   customMersenneTwister := Lcg64Bit (length bytes),
                   encryptionEnabled :=
                     (if \<not> strictly_equals_NaN (decryptionKeys s) then True
                      else encryptionEnabled s) \<rparr>))"


subsection \<open>The decryption-key table from the 65-byte packet\<close>

text \<open>\<^verbatim>\<open>DataView.getUint8\<close> raises a RangeError outside the view.\<close>

definition getUint8 :: "u8 list \<Rightarrow> nat \<Rightarrow> error + int" where
  "getUint8 view i = (if i < length view then Inr (uint (view ! i)) else Inl RangeError)"

text \<open>
  The loop of \<^verbatim>\<open>processDecryptionKeys\<close>: \<^verbatim>\<open>for (let index = 1; index < 65; index++)\<close>,
  whose body first executes \<^verbatim>\<open>index = index + 1\<close> and then pushes
  \<^verbatim>\<open>keys.getUint8(index) ^ 0xb2\<close>. The argument \<open>index\<close> is the value at the loop test;
  the body reads at \<open>index + 1\<close> and the loop's own increment makes the next test see
  \<open>index + 1 + 1\<close>.
\<close>

function processDecryptionKeys_loop :: "u8 list \<Rightarrow> nat \<Rightarrow> int list \<Rightarrow> error + int list" where
  "processDecryptionKeys_loop keys index decryptionKeys' =
     (if index < 65 then
        (case getUint8 keys (index + 1) of
           Inl e \<Rightarrow> Inl e
         | Inr b \<Rightarrow>
             processDecryptionKeys_loop keys (index + 1 + 1)
               (decryptionKeys' @ [to32BitSignedInt (js_xor b 0xb2)]))
      else Inr decryptionKeys')"
  by pat_completeness auto
termination
  by (relation "measure (\<lambda>(keys, index, decryptionKeys'). 65 - index)") auto

text \<open>\<^verbatim>\<open>new Uint8Array(decryptionKeys)\<close> reduces every number to a byte. When
  \<^verbatim>\<open>getUint8\<close> raises, the field is not assigned.\<close>

definition processDecryptionKeys :: "session \<Rightarrow> u8 list \<Rightarrow> error + session" where
  "processDecryptionKeys s keys =
     (case processDecryptionKeys_loop keys 1 [] of
        Inl e \<Rightarrow> Inl e
      | Inr ds \<Rightarrow> Inr (s\<lparr>decryptionKeys := Uint8Table (map word_of_int ds)\<rparr>))"

subsection \<open>The stream cipher\<close>

text \<open>
  The send path. The index drawn from the generator is written as byte 0 of the packet
  (reduced to a byte by the \<^verbatim>\<open>Uint8Array\<close>); every plaintext byte is XOR-ed with the
  key at the running index, which is reset to 0 only when it equals the length of the key
  array. A key read outside the array is \<^verbatim>\<open>undefined\<close> and leaves the byte unchanged.
\<close>

fun encrypt_loop :: "keyarray \<Rightarrow> nat \<Rightarrow> u8 list \<Rightarrow> nat \<Rightarrow> u8 list" where
  "encrypt_loop keys keyArrayLength [] mersenneTwister = []"
| "encrypt_loop keys keyArrayLength (currentByte # inputRest) mersenneTwister =
     (let tempKeyIndex = (if keyArrayLength = mersenneTwister then 0 else mersenneTwister);
          xorKey = keys_get keys tempKeyIndex;
          encryptedByte = js_xor (uint currentByte) (undefined_as_zero xorKey)
      in word_of_int encryptedByte #
         encrypt_loop keys keyArrayLength inputRest (tempKeyIndex + 1))"

text \<open>\<^verbatim>\<open>encryptMessage\<close> reads its input and returns the bytes of a new buffer. The call
  of the generator advances its state also when it raises.\<close>

definition encryptMessage :: "session \<Rightarrow> u8 list \<Rightarrow> (error + u8 list) \<times> session" where
  "encryptMessage s inputParsed =
     (if \<not> encryptionEnabled s then (Inl (Error ''Encryption is not enabled.''), s)
      else
        (case computeNextLCGValue (customMersenneTwister s) of
           (Inl e, t) \<Rightarrow> (Inl e, s\<lparr>customMersenneTwister := t\<rparr>)
         | (Inr mersenneTwister, t) \<Rightarrow>
             (Inr (of_nat mersenneTwister #
                   encrypt_loop (encryptionKeys s) (keys_length (encryptionKeys s))
                     inputParsed mersenneTwister),
              s\<lparr>customMersenneTwister := t\<rparr>)))"

text \<open>
  The receive path works in place: \<^verbatim>\<open>new Uint8Array(encryptedMessageBuffer)\<close> is a view
  of the caller's \<^verbatim>\<open>ArrayBuffer\<close>, so every store of the loop is a store into that
  buffer. The store of buffers is a list indexed by address; a new buffer takes the next
  address.
\<close>

type_synonym heap = "u8 list list"

text \<open>\<^verbatim>\<open>this.decryptionKeys.length\<close> and \<^verbatim>\<open>this.decryptionKeys[i]\<close>; both are
  \<^verbatim>\<open>undefined\<close> while the field holds \<^verbatim>\<open>NaN\<close>.\<close>

fun table_length :: "table \<Rightarrow> nat option" where
  "table_length TableNaN = None"
| "table_length (Uint8Table bs) = Some (length bs)"

fun table_get :: "table \<Rightarrow> nat \<Rightarrow> int option" where
  "table_get TableNaN i = None"
| "table_get (Uint8Table bs) i = (if i < length bs then Some (uint (bs ! i)) else None)"

text \<open>\<^verbatim>\<open>a & b\<close> on numbers.\<close>

definition js_and :: "int \<Rightarrow> int \<Rightarrow> int" where
  "js_and a b = sint ((word_of_int a :: u32) AND word_of_int b)"

function decrypt_loop :: "table \<Rightarrow> nat \<Rightarrow> heap \<Rightarrow> nat \<Rightarrow> nat \<Rightarrow> nat \<Rightarrow> heap" where
  "decrypt_loop keys encryptedLength h encryptedMessage initialKeyIndex messageIndex =
     (if messageIndex < encryptedLength then
        (let byteToDecrypt = uint (h ! encryptedMessage ! messageIndex);
             keyIndexToUse =
               (if Some initialKeyIndex \<noteq> table_length keys then initialKeyIndex else 0);
             decryptionKey = table_get keys keyIndexToUse;
             decrypted = js_and (js_xor (undefined_as_zero decryptionKey) byteToDecrypt) 0xFF
         in decrypt_loop keys encryptedLength
              (h[encryptedMessage := (h ! encryptedMessage)[messageIndex := word_of_int decrypted]])
              encryptedMessage (keyIndexToUse + 1) (messageIndex + 1))
      else h)"
  by pat_completeness auto
termination
  by (relation "measure (\<lambda>(keys, encryptedLength, h, encryptedMessage, initialKeyIndex,
        messageIndex). encryptedLength - messageIndex)") auto

text \<open>
  \<^verbatim>\<open>decryptMessage\<close> takes the address of the ciphertext buffer and returns the address
  of the new buffer made by \<^verbatim>\<open>slice(1)\<close>. On an empty buffer the loop does not run and
  the slice is empty.
\<close>

definition decryptMessage :: "session \<Rightarrow> heap \<Rightarrow> nat \<Rightarrow> error + (nat \<times> heap)" where
  "decryptMessage s h encryptedMessageBuffer =
     (if \<not> encryptionEnabled s then Inl (Error ''Decryption is not enabled.'')
      else
        (case h ! encryptedMessageBuffer of
           [] \<Rightarrow> Inr (length h, h @ [[]])
         | initialKeyIndex # encryptedRest \<Rightarrow>
             (let h' = decrypt_loop (decryptionKeys s) (length (h ! encryptedMessageBuffer)) h
                         encryptedMessageBuffer (unat initialKeyIndex) 1
              in Inr (length h', h' @ [drop 1 (h' ! encryptedMessageBuffer)]))))"

text \<open>
  What the receive loop computes, as a function of the key table, the starting index and the
  ciphertext bytes after the index byte.
\<close>

fun decrypt_bytes :: "table \<Rightarrow> nat \<Rightarrow> u8 list \<Rightarrow> u8 list" where
  "decrypt_bytes keys initialKeyIndex [] = []"
| "decrypt_bytes keys initialKeyIndex (byteToDecrypt # encryptedRest) =
     (let keyIndexToUse =
            (if Some initialKeyIndex \<noteq> table_length keys then initialKeyIndex else 0);
          decryptionKey = table_get keys keyIndexToUse
      in word_of_int (js_and (js_xor (undefined_as_zero decryptionKey) (uint byteToDecrypt)) 0xFF) #
         decrypt_bytes keys (keyIndexToUse + 1) encryptedRest)"

subsection \<open>Inbound messages\<close>

text \<open>
  Case 2 of \<^verbatim>\<open>_alloc\<close>, the handler of an inbound message whose data is the
  \<^verbatim>\<open>ArrayBuffer\<close> at the given address. What leaves the session is recorded: a buffer
  handed to the socket, or a plaintext buffer handed to the next handler.
\<close>

datatype effect = SocketSend "u8 list" | Forward nat

definition onMessage :: "session \<Rightarrow> heap \<Rightarrow> nat \<Rightarrow> error + (effect list \<times> heap \<times> session)" where
  "onMessage s h data =
     (if encryptionEnabled s then
        (case decryptMessage s h data of
           Inl e \<Rightarrow> Inl e
         | Inr (processedData, h') \<Rightarrow> Inr ([Forward processedData], h', s))
      else if length (h ! data) = 65 then
        (case processDecryptionKeys s (h ! data) of
           Inl e \<Rightarrow> Inl e
         | Inr s' \<Rightarrow> Inr ([], h, s'))
      else if length (h ! data) = 16 then
        (case processServerKeys s (h ! data) of
           Inl e \<Rightarrow> Inl e
         | Inr (serverKeys, s') \<Rightarrow> Inr ([SocketSend serverKeys], h, s'))
      else Inr ([], h, s))"

section \<open>Variant B: the handshake of \<^verbatim>\<open>TricksplitWasmInstance\<close>\<close>

text \<open>
  \<^verbatim>\<open>first()\<close> reads the clock and two random 32-bit values; they are the arguments
  \<open>now\<close> (\<^verbatim>\<open>Date.now()\<close>, an integer number of milliseconds) and \<open>r1\<close>, \<open>r2\<close> (the two
  results of \<^verbatim>\<open>crypto.getRandomValues(new Uint32Array(1))[0]\<close>).

  The divisions of \<^verbatim>\<open>first()\<close> are divisions of numbers, whose results need not be
  integers, so this part computes with rationals. The model is exact: a 32-bit integer divided
  by 2 or 4 is a binary fraction that a double represents without rounding, and for every
  time value a \<^verbatim>\<open>Date\<close> can hold the rounded quotient \<^verbatim>\<open>Date.now() / 1000.0\<close> has
  the floor of the exact quotient and lies on the same side of \<open>2^31\<close>.
\<close>

definition generateRandomSeed :: "int \<Rightarrow> int" where
  "generateRandomSeed now =
     (let generateSeedKey = (of_int now :: rat) / 1000
      in if \<bar>generateSeedKey\<bar> < 2147483648 then \<lfloor>generateSeedKey\<rfloor> else - 2147483648)"

text \<open>\<^verbatim>\<open>Math.floor\<close> of an element of a \<^verbatim>\<open>Uint32Array\<close> is the element.\<close>

definition checkAndFloorUnsignedInt32 :: "int \<Rightarrow> int" where
  "checkAndFloorUnsignedInt32 i = (if i \<ge> 4294967296 \<or> i < 0 then 0 else i)"

definition getRandomValue :: "u32 \<Rightarrow> int" where
  "getRandomValue r = checkAndFloorUnsignedInt32 (uint r)"

definition toUnsignedInt32 :: "int \<Rightarrow> int" where
  "toUnsignedInt32 i = uint (word_of_int i :: u32)"

definition generateRandomSecureKeys :: "u32 \<Rightarrow> u32 \<Rightarrow> int \<times> int" where
  "generateRandomSecureKeys r1 r2 =
     (toUnsignedInt32 (getRandomValue r1), toUnsignedInt32 (getRandomValue r2))"

text \<open>ToInt32 of a number that may have a fraction: truncate towards zero, then keep the low
  32 bits. \<^verbatim>\<open>a ^ b\<close> applies it to both operands.\<close>

definition ToInt32_frac :: "rat \<Rightarrow> u32" where
  "ToInt32_frac q = word_of_int (if q < 0 then \<lceil>q\<rceil> else \<lfloor>q\<rfloor>)"

definition xor_frac :: "rat \<Rightarrow> rat \<Rightarrow> int" where
  "xor_frac a b = sint (ToInt32_frac a XOR ToInt32_frac b)"

text \<open>
  \<^verbatim>\<open>first()\<close> returns the three words of the packet; the second component is the value it
  stores in \<^verbatim>\<open>this.encryptionKey\<close>. In \<^verbatim>\<open>keyPairOne ^ (seed ^ 0xff1c1a1) / 2 ^ 0x1a4\<close>
  the division binds tighter than \<^verbatim>\<open>^\<close>, and \<^verbatim>\<open>^\<close> associates to the left.
\<close>

definition first :: "int \<Rightarrow> u32 \<Rightarrow> u32 \<Rightarrow> u32 list \<times> int" where
  "first now r1 r2 =
     (let generatedmakeSeededConstant = generateRandomSeed now;
          (keyPairOne, keyPairTwo) = generateRandomSecureKeys r1 r2;
          p0 = toUnsignedInt32 (js_xor generatedmakeSeededConstant 0xff1d296);
          p1 = toUnsignedInt32
                 (xor_frac
                    (of_int (xor_frac (of_int keyPairOne)
                       (of_int (js_xor generatedmakeSeededConstant 0xff1c1a1) / 2)))
                    0x1a4);
          p2 = toUnsignedInt32
                 (xor_frac
                    (of_int (xor_frac (of_int keyPairTwo)
                       (of_int (js_xor generatedmakeSeededConstant 0xff1c1a1) / 4)))
                    0x45)
      in ([word_of_int p0, word_of_int p1, word_of_int p2], js_xor keyPairTwo keyPairOne))"

section \<open>The bytecode virtual machine\<close>

text \<open>
  \<^verbatim>\<open>processVMBytecode\<close> is the same text in both files but for one statement of case 67.
  The model covers what the interpreter does with the values it can build by itself. Where
  the source would run code of the JavaScript host (\<^verbatim>\<open>eval\<close>, a native or evaluated
  function, a conversion of a string or an object to a number, a property of a function or
  of an array being set) the model stops with \<open>Unmodelled\<close>; so it does for a loop of the
  interpreter that an infinite count or jump target would keep running for ever.

  The bytecode is a list of natural numbers: bytes for Variant A, UTF-16 code units for
  Variant B. The operand stack has its top first. The auxiliary store \<^verbatim>\<open>backupStack\<close> maps
  keys to values, the most recent store first.
\<close>

datatype outcome = Returned jsval carrier | Threw error carrier | Unmodelled

record vm =
  index :: int
  mainStack :: "jsval list"
  backupStack :: "(jsval \<times> jsval) list"
  tokenCarrier :: carrier

datatype step = Continue vm | Halt outcome

text \<open>\<^verbatim>\<open>mainStack.pop()\<close>: \<^verbatim>\<open>undefined\<close> on an empty stack.\<close>

fun pop :: "jsval list \<Rightarrow> jsval \<times> jsval list" where
  "pop [] = (Undefined, [])"
| "pop (v # vs) = (v, vs)"

text \<open>\<^verbatim>\<open>processedBytes[i]\<close>: \<^verbatim>\<open>undefined\<close> outside the array.\<close>

definition fetch :: "nat list \<Rightarrow> int \<Rightarrow> nat option" where
  "fetch processedBytes i =
     (if 0 \<le> i \<and> i < int (length processedBytes) then Some (processedBytes ! nat i) else None)"

text \<open>ToInt32 of a value, where it needs no host code.\<close>

fun ToInt32 :: "jsval \<Rightarrow> int option" where
  "ToInt32 Undefined = Some 0"
| "ToInt32 Null = Some 0"
| "ToInt32 (Num (Fin i)) = Some (to32BitSignedInt i)"
| "ToInt32 (Num n) = Some 0"
| "ToInt32 v = None"

definition bitwise :: "(u32 \<Rightarrow> u32 \<Rightarrow> u32) \<Rightarrow> jsval \<Rightarrow> jsval \<Rightarrow> jsval option" where
  "bitwise f a b =
     (case ToInt32 a of
        None \<Rightarrow> None
      | Some x \<Rightarrow>
          (case ToInt32 b of
             None \<Rightarrow> None
           | Some y \<Rightarrow> Some (Num (Fin (sint (f (word_of_int x) (word_of_int y)))))))"

definition push_result :: "vm \<Rightarrow> jsval list \<Rightarrow> jsval option \<Rightarrow> step" where
  "push_result s rest r =
     (case r of None \<Rightarrow> Halt Unmodelled | Some v \<Rightarrow> Continue (s\<lparr>mainStack := v # rest\<rparr>))"

text \<open>\<^verbatim>\<open>popOne == 0\<close>: loose equality with the number zero.\<close>

fun loose_eq_zero :: "jsval \<Rightarrow> bool option" where
  "loose_eq_zero Undefined = Some False"
| "loose_eq_zero Null = Some False"
| "loose_eq_zero (Num (Fin i)) = Some (i = 0)"
| "loose_eq_zero (Num n) = Some False"
| "loose_eq_zero v = None"

fun num_neg :: "jsnum \<Rightarrow> jsnum" where
  "num_neg NaN = NaN"
| "num_neg PosInf = NegInf"
| "num_neg NegInf = PosInf"
| "num_neg (Fin i) = Fin (- i)"

fun num_add :: "jsnum \<Rightarrow> jsnum \<Rightarrow> jsnum" where
  "num_add NaN b = NaN"
| "num_add a NaN = NaN"
| "num_add PosInf NegInf = NaN"
| "num_add NegInf PosInf = NaN"
| "num_add PosInf b = PosInf"
| "num_add a PosInf = PosInf"
| "num_add NegInf b = NegInf"
| "num_add a NegInf = NegInf"
| "num_add (Fin i) (Fin j) = Fin (i + j)"

text \<open>\<^verbatim>\<open>popTwo + popOne\<close>, \<^verbatim>\<open>popTwo - popOne\<close> and \<^verbatim>\<open>popTwo / popOne\<close>. The machine
  evaluates them only under \<^verbatim>\<open>popOne == 0\<close>; a string on the left of \<^verbatim>\<open>+\<close> is
  concatenated with \<^verbatim>\<open>"0"\<close>.\<close>

definition js_plus :: "jsval \<Rightarrow> jsval \<Rightarrow> jsval option" where
  "js_plus popTwo popOne =
     (case popOne of
        Num b \<Rightarrow>
          (case popTwo of
             Num a \<Rightarrow> Some (Num (num_add a b))
           | Undefined \<Rightarrow> Some (Num NaN)
           | Null \<Rightarrow> Some (Num b)
           | Str cs \<Rightarrow> (if b = Fin 0 then Some (Str (cs @ js_string ''0'')) else None)
           | _ \<Rightarrow> None)
      | _ \<Rightarrow> None)"

definition js_minus :: "jsval \<Rightarrow> jsval \<Rightarrow> jsval option" where
  "js_minus popTwo popOne =
     (case popOne of
        Num b \<Rightarrow>
          (case popTwo of
             Num a \<Rightarrow> Some (Num (num_add a (num_neg b)))
           | Undefined \<Rightarrow> Some (Num NaN)
           | Null \<Rightarrow> Some (Num (num_neg b))
           | _ \<Rightarrow> None)
      | _ \<Rightarrow> None)"

fun divide_by_zero :: "jsnum \<Rightarrow> jsnum" where
  "divide_by_zero NaN = NaN"
| "divide_by_zero PosInf = PosInf"
| "divide_by_zero NegInf = NegInf"
| "divide_by_zero (Fin i) = (if 0 < i then PosInf else if i < 0 then NegInf else NaN)"

definition js_divide :: "jsval \<Rightarrow> jsval \<Rightarrow> jsval option" where
  "js_divide popTwo popOne =
     (if popOne = Num (Fin 0) then
        (case popTwo of
           Num a \<Rightarrow> Some (Num (divide_by_zero a))
         | Undefined \<Rightarrow> Some (Num NaN)
         | Null \<Rightarrow> Some (Num NaN)
         | _ \<Rightarrow> None)
      else None)"

text \<open>\<^verbatim>\<open>String.fromCharCode(n)\<close> keeps the low 16 bits.\<close>

definition fromCharCode :: "int \<Rightarrow> u16" where
  "fromCharCode n = word_of_int n"

text \<open>
  The number of rounds of \<^verbatim>\<open>for (i = 0; i < loopCount; i++)\<close> after
  \<^verbatim>\<open>if (loopCount < 1) loopCount = 0\<close>, which is also that of
  \<^verbatim>\<open>for (i = loopCount - 1; i >= 0; i--)\<close>. A count of \<^verbatim>\<open>Infinity\<close> never ends.
\<close>

fun loop_count :: "jsval \<Rightarrow> nat option" where
  "loop_count Undefined = Some 0"
| "loop_count Null = Some 0"
| "loop_count (Num (Fin i)) = Some (if i < 1 then 0 else nat i)"
| "loop_count (Num NaN) = Some 0"
| "loop_count (Num NegInf) = Some 0"
| "loop_count v = None"

text \<open>The loop of case 65: pop, \<^verbatim>\<open>^ 0xb2\<close>, \<^verbatim>\<open>String.fromCharCode\<close>.\<close>

fun pop_chars :: "nat \<Rightarrow> jsval list \<Rightarrow> (u16 list \<times> jsval list) option" where
  "pop_chars 0 st = Some ([], st)"
| "pop_chars (Suc n) st =
     (let (nextInstruction, st') = pop st in
      case ToInt32 nextInstruction of
        None \<Rightarrow> None
      | Some x \<Rightarrow>
          (case pop_chars n st' of
             None \<Rightarrow> None
           | Some (cs, st'') \<Rightarrow> Some (fromCharCode (js_xor x 0xb2) # cs, st'')))"

text \<open>The loop of case 66: the characters come from the bytecode at the cursor.\<close>

fun inline_chars :: "nat list \<Rightarrow> int \<Rightarrow> nat \<Rightarrow> u16 list" where
  "inline_chars processedBytes i 0 = []"
| "inline_chars processedBytes i (Suc n) =
     fromCharCode
       (js_xor (case fetch processedBytes i of None \<Rightarrow> 0 | Some b \<Rightarrow> int b) 0xb2) #
     inline_chars processedBytes (i + 1) n"

text \<open>The values whose conversion to a property key runs no code.\<close>

fun primitive :: "jsval \<Rightarrow> bool" where
  "primitive Undefined = True"
| "primitive Null = True"
| "primitive (Num n) = True"
| "primitive (Str cs) = True"
| "primitive v = False"

text \<open>The keys under which the auxiliary store is modelled: a string key could name a
  property of the array itself (\<^verbatim>\<open>length\<close>, a method), so it is left out.\<close>

fun aux_key :: "jsval \<Rightarrow> bool" where
  "aux_key Undefined = True"
| "aux_key Null = True"
| "aux_key (Num n) = True"
| "aux_key v = False"

definition case_2 :: "vm \<Rightarrow> step" where
  "case_2 s =
     (let (popOne, st1) = pop (mainStack s) in
      if aux_key popOne then
        Continue (s\<lparr>mainStack :=
          (case map_of (backupStack s) popOne of None \<Rightarrow> Undefined | Some v \<Rightarrow> v) # st1\<rparr>)
      else Halt Unmodelled)"

definition case_3 :: "vm \<Rightarrow> step" where
  "case_3 s =
     (let (popOne, st1) = pop (mainStack s);
          (popTwo, st2) = pop st1 in
      if aux_key popOne then
        Continue (s\<lparr>mainStack := st2, backupStack := (popOne, popTwo) # backupStack s\<rparr>)
      else Halt Unmodelled)"

definition case_4 :: "vm \<Rightarrow> step" where
  "case_4 s =
     Continue (s\<lparr>mainStack :=
       (case mainStack s of [] \<Rightarrow> Undefined | v # vs \<Rightarrow> v) # mainStack s\<rparr>)"

definition case_5 :: "vm \<Rightarrow> step" where
  "case_5 s =
     (let (popOne, st1) = pop (mainStack s);
          (popTwo, st2) = pop st1 in
      Continue (s\<lparr>mainStack := popTwo # popOne # st2\<rparr>))"

text \<open>Cases 16, 17 and 19: the operation when \<^verbatim>\<open>popOne == 0\<close>, else a zero.\<close>

definition guarded :: "(jsval \<Rightarrow> jsval \<Rightarrow> jsval option) \<Rightarrow> vm \<Rightarrow> step" where
  "guarded f s =
     (let (popOne, st1) = pop (mainStack s);
          (popTwo, st2) = pop st1 in
      case loose_eq_zero popOne of
        None \<Rightarrow> Halt Unmodelled
      | Some True \<Rightarrow> push_result s st2 (f popTwo popOne)
      | Some False \<Rightarrow> Continue (s\<lparr>mainStack := Num (Fin 0) # st2\<rparr>))"

text \<open>Cases 18, 20 and 23: \<^verbatim>\<open>Math.imul(popTwo, popOne)\<close>, \<^verbatim>\<open>popTwo ^ popOne\<close>,
  \<^verbatim>\<open>popTwo & popOne\<close>.\<close>

definition binary :: "(u32 \<Rightarrow> u32 \<Rightarrow> u32) \<Rightarrow> vm \<Rightarrow> step" where
  "binary f s =
     (let (popOne, st1) = pop (mainStack s);
          (popTwo, st2) = pop st1 in
      push_result s st2 (bitwise f popTwo popOne))"

text \<open>Cases 21 and 22: \<^verbatim>\<open>popTwo << (popOne & 0x1f)\<close> and the arithmetic
  \<^verbatim>\<open>popTwo >> (popOne & 0x1f)\<close>.\<close>

definition shift :: "(nat \<Rightarrow> u32 \<Rightarrow> u32) \<Rightarrow> vm \<Rightarrow> step" where
  "shift f s =
     (let (popOne, st1) = pop (mainStack s);
          (popTwo, st2) = pop st1 in
      case bitwise (AND) popOne (Num (Fin 0x1f)) of
        None \<Rightarrow> Halt Unmodelled
      | Some shiftCount \<Rightarrow>
          push_result s st2 (bitwise (\<lambda>a c. f (unat c mod 32) a) popTwo shiftCount))"

definition case_32 :: "vm \<Rightarrow> step" where
  "case_32 s =
     (let (popOne, st1) = pop (mainStack s) in
      push_result s st1 (bitwise (XOR) popOne (Num (Fin 0xffffffff))))"

text \<open>
  Case 64. \<^verbatim>\<open>.length\<close> of \<^verbatim>\<open>undefined\<close> or \<^verbatim>\<open>null\<close> raises; a number has no length,
  so the loop does not run and \<^verbatim>\<open>undefined\<close> is pushed as the length; an array that is not
  empty has no \<^verbatim>\<open>charCodeAt\<close>.
\<close>

definition case_64 :: "vm \<Rightarrow> step" where
  "case_64 s =
     (let (stringTostringToProcess, st1) = pop (mainStack s) in
      case stringTostringToProcess of
        Undefined \<Rightarrow> Halt (Threw TypeError (tokenCarrier s))
      | Null \<Rightarrow> Halt (Threw TypeError (tokenCarrier s))
      | Num n \<Rightarrow> Continue (s\<lparr>mainStack := Undefined # Arr [] # st1\<rparr>)
      | Str cs \<Rightarrow>
          Continue (s\<lparr>mainStack :=
            Num (Fin (int (length cs))) # Arr (map (\<lambda>c. js_xor (uint c) 0xb2) (rev cs)) # st1\<rparr>)
      | Arr xs \<Rightarrow>
          (if length xs < 1 then Continue (s\<lparr>mainStack := Num (Fin 0) # Arr [] # st1\<rparr>)
           else Halt (Threw TypeError (tokenCarrier s)))
      | CarrierRef \<Rightarrow>
          (if map_of (tokenCarrier s) (js_string ''length'') = None
           then Continue (s\<lparr>mainStack := Undefined # Arr [] # st1\<rparr>)
           else Halt Unmodelled)
      | _ \<Rightarrow> Halt Unmodelled)"

definition case_65 :: "vm \<Rightarrow> step" where
  "case_65 s =
     (let (loopCount, st1) = pop (mainStack s) in
      case loop_count loopCount of
        None \<Rightarrow> Halt Unmodelled
      | Some n \<Rightarrow>
          (case pop_chars n st1 of
             None \<Rightarrow> Halt Unmodelled
           | Some (newString, st2) \<Rightarrow> Continue (s\<lparr>mainStack := Str newString # st2\<rparr>)))"

definition case_66 :: "nat list \<Rightarrow> vm \<Rightarrow> step" where
  "case_66 processedBytes s =
     (let loopCount = (case fetch processedBytes (index s) of None \<Rightarrow> 0 | Some n \<Rightarrow> n);
          newString = inline_chars processedBytes (index s + 1) loopCount
      in Continue (s\<lparr>index := index s + 1 + int loopCount,
                     mainStack := Str newString # mainStack s\<rparr>))"

text \<open>The \<^verbatim>\<open>switch (popOne)\<close> of case 67.\<close>

definition resolve :: "jsval \<Rightarrow> jsval" where
  "resolve popOne =
     (if popOne = Str (js_string ''eval'') then FnEval
      else if popOne = Str (js_string ''toString'') then FnToString
      else if popOne = Str (js_string ''indexOf'') then FnIndexOf
      else if popOne = Str (js_string ''getAttribute'') then Str (js_string ''getAttribute'')
      else if popOne = Str (js_string ''CanvasCaptureMediaStreamTrack'') then CarrierRef
      else Num (Fin 0))"

text \<open>Case 67 of \<^verbatim>\<open>senpaAuth.js\<close>.\<close>

definition senpa_case_67 :: "vm \<Rightarrow> step" where
  "senpa_case_67 s =
     (let (popOne, st1) = pop (mainStack s);
          (popTwo, st2) = pop st1 in
      Continue (s\<lparr>mainStack := resolve popOne # st2\<rparr>))"

text \<open>
  Case 67 of \<^verbatim>\<open>tricksplit.js\<close> first executes \<^verbatim>\<open>var result = popTwo[popOne]\<close>. The read
  raises a TypeError on \<^verbatim>\<open>undefined\<close> and \<^verbatim>\<open>null\<close>; on a number, a string, an array
  and the token carrier it finds a data property or nothing. A key that is an object is
  converted by its own methods, and a function has properties whose getters raise: both are
  left to the host.
\<close>

datatype lookup = Completes | Raises | HostDependent

definition property_read :: "jsval \<Rightarrow> jsval \<Rightarrow> lookup" where
  "property_read popTwo popOne =
     (if \<not> primitive popOne then HostDependent
      else
        (case popTwo of
           Undefined \<Rightarrow> Raises
         | Null \<Rightarrow> Raises
         | Num n \<Rightarrow> Completes
         | Str cs \<Rightarrow> Completes
         | Arr xs \<Rightarrow> Completes
         | CarrierRef \<Rightarrow> Completes
         | _ \<Rightarrow> HostDependent))"

definition tricksplit_case_67 :: "vm \<Rightarrow> step" where
  "tricksplit_case_67 s =
     (let (popOne, st1) = pop (mainStack s);
          (popTwo, st2) = pop st1 in
      case property_read popTwo popOne of
        Raises \<Rightarrow> Halt (Threw TypeError (tokenCarrier s))
      | HostDependent \<Rightarrow> Halt Unmodelled
      | Completes \<Rightarrow> Continue (s\<lparr>mainStack := resolve popOne # st2\<rparr>))"

text \<open>
  Case 68, \<^verbatim>\<open>popTwo[popOne] = popThree\<close>. On the token carrier a string key makes or
  replaces an own property, except \<^verbatim>\<open>__proto__\<close>, which is a setter of the prototype.
\<close>

definition case_68 :: "vm \<Rightarrow> step" where
  "case_68 s =
     (let (popOne, st1) = pop (mainStack s);
          (popTwo, st2) = pop st1;
          (popThree, st3) = pop st2 in
      if \<not> primitive popOne then Halt Unmodelled
      else
        (case popTwo of
           Undefined \<Rightarrow> Halt (Threw TypeError (tokenCarrier s))
         | Null \<Rightarrow> Halt (Threw TypeError (tokenCarrier s))
         | CarrierRef \<Rightarrow>
             (case popOne of
                Str k \<Rightarrow>
                  (if k = js_string ''__proto__'' then Halt Unmodelled
                   else Continue (s\<lparr>mainStack := st3,
                                    tokenCarrier := (k, popThree) # tokenCarrier s\<rparr>))
              | _ \<Rightarrow> Halt Unmodelled)
         | _ \<Rightarrow> Halt Unmodelled))"

text \<open>
  \<^verbatim>\<open>index = target\<close>, followed at once by the loop test \<^verbatim>\<open>index < processedBytes.length\<close>
  and the fetch \<^verbatim>\<open>processedBytes[index++]\<close>: \<^verbatim>\<open>null\<close> counts as 0; \<^verbatim>\<open>undefined\<close>,
  NaN and \<^verbatim>\<open>Infinity\<close> fail the test, so the function returns \<^verbatim>\<open>undefined\<close>.
\<close>

definition jump :: "vm \<Rightarrow> jsval \<Rightarrow> step" where
  "jump s target =
     (case target of
        Num (Fin i) \<Rightarrow> Continue (s\<lparr>index := i\<rparr>)
      | Null \<Rightarrow> Continue (s\<lparr>index := 0\<rparr>)
      | Undefined \<Rightarrow> Halt (Returned Undefined (tokenCarrier s))
      | Num NaN \<Rightarrow> Halt (Returned Undefined (tokenCarrier s))
      | Num PosInf \<Rightarrow> Halt (Returned Undefined (tokenCarrier s))
      | _ \<Rightarrow> Halt Unmodelled)"

definition case_48 :: "vm \<Rightarrow> step" where
  "case_48 s =
     (let (target, st1) = pop (mainStack s) in jump (s\<lparr>mainStack := st1\<rparr>) target)"

text \<open>Case 49 jumps unless \<^verbatim>\<open>popTwo\<close> is strictly the number zero.\<close>

definition case_49 :: "vm \<Rightarrow> step" where
  "case_49 s =
     (let (popOne, st1) = pop (mainStack s);
          (popTwo, st2) = pop st1 in
      if popTwo \<noteq> Num (Fin 0) then jump (s\<lparr>mainStack := st2\<rparr>) popOne
      else Continue (s\<lparr>mainStack := st2\<rparr>))"

text \<open>Case 132: \<^verbatim>\<open>index1 | index2 << 8 | index3 << 0x10 | index4 << 0x18\<close> over four inline
  elements, each \<^verbatim>\<open>undefined\<close> past the end.\<close>

definition inline_word :: "nat list \<Rightarrow> int \<Rightarrow> u32" where
  "inline_word processedBytes i =
     (case fetch processedBytes i of None \<Rightarrow> 0 | Some b \<Rightarrow> word_of_nat b)"

definition case_132 :: "nat list \<Rightarrow> vm \<Rightarrow> step" where
  "case_132 processedBytes s =
     (let index1 = inline_word processedBytes (index s);
          index2 = inline_word processedBytes (index s + 1);
          index3 = inline_word processedBytes (index s + 2);
          index4 = inline_word processedBytes (index s + 3)
      in Continue (s\<lparr>index := index s + 4,
                     mainStack :=
                       Num (Fin (sint (index1 OR push_bit 8 index2 OR push_bit 16 index3 OR
                                       push_bit 24 index4))) # mainStack s\<rparr>))"

text \<open>
  Case 133 pops the count, that many arguments, the function and the receiver. The string
  \<^verbatim>\<open>'getAttribute'\<close> gives \<^verbatim>\<open>null\<close>; \<^verbatim>\<open>eval\<close>, \<^verbatim>\<open>toString\<close> and
  \<^verbatim>\<open>indexOf\<close> are host calls; anything else is \<^verbatim>\<open>_function.apply(_args, ...)\<close>, a
  TypeError for a value that has no callable \<^verbatim>\<open>apply\<close>.
\<close>

definition case_133 :: "vm \<Rightarrow> step" where
  "case_133 s =
     (let (loopCount, st1) = pop (mainStack s) in
      case loop_count loopCount of
        None \<Rightarrow> Halt Unmodelled
      | Some n \<Rightarrow>
          (let st2 = drop n st1;
               (function', st3) = pop st2;
               (args', st4) = pop st3 in
           case function' of
             Str cs \<Rightarrow>
               (if cs = js_string ''getAttribute'' then Continue (s\<lparr>mainStack := Null # st4\<rparr>)
                else Halt (Threw TypeError (tokenCarrier s)))
           | Undefined \<Rightarrow> Halt (Threw TypeError (tokenCarrier s))
           | Null \<Rightarrow> Halt (Threw TypeError (tokenCarrier s))
           | Num x \<Rightarrow> Halt (Threw TypeError (tokenCarrier s))
           | Arr xs \<Rightarrow> Halt (Threw TypeError (tokenCarrier s))
           | CarrierRef \<Rightarrow>
               (if map_of (tokenCarrier s) (js_string ''apply'') = None
                then Halt (Threw TypeError (tokenCarrier s))
                else Halt Unmodelled)
           | _ \<Rightarrow> Halt Unmodelled))"

definition case_96 :: "vm \<Rightarrow> step" where
  "case_96 s = Continue (s\<lparr>mainStack := Num (Fin 0) # mainStack s\<rparr>)"

definition case_80 :: "vm \<Rightarrow> step" where
  "case_80 s = Halt (Returned (fst (pop (mainStack s))) (tokenCarrier s))"

text \<open>The \<^verbatim>\<open>switch (instructionSet)\<close>, in the order of the source; it has no default.
  The argument \<open>case_67\<close> is the one case in which the two files differ.\<close>

definition exec :: "(vm \<Rightarrow> step) \<Rightarrow> nat list \<Rightarrow> nat \<Rightarrow> vm \<Rightarrow> step" where
  "exec case_67 processedBytes instructionSet s =
     (if instructionSet = 0 then Continue s
      else if instructionSet = 2 then case_2 s
      else if instructionSet = 3 then case_3 s
      else if instructionSet = 4 then case_4 s
      else if instructionSet = 5 then case_5 s
      else if instructionSet = 16 then guarded js_plus s
      else if instructionSet = 17 then guarded js_minus s
      else if instructionSet = 18 then binary (*) s
      else if instructionSet = 19 then guarded js_divide s
      else if instructionSet = 20 then binary (XOR) s
      else if instructionSet = 21 then shift push_bit s
      else if instructionSet = 22 then shift signed_drop_bit s
      else if instructionSet = 23 then binary (AND) s
      else if instructionSet = 32 then case_32 s
      else if instructionSet = 64 then case_64 s
      else if instructionSet = 65 then case_65 s
      else if instructionSet = 66 then case_66 processedBytes s
      else if instructionSet = 67 then case_67 s
      else if instructionSet = 68 then case_68 s
      else if instructionSet = 48 then case_48 s
      else if instructionSet = 49 then case_49 s
      else if instructionSet = 132 then case_132 processedBytes s
      else if instructionSet = 133 then case_133 s
      else if instructionSet = 96 then case_96 s
      else if instructionSet = 80 then case_80 s
      else Continue s)"

text \<open>The instruction table: the labels of the \<^verbatim>\<open>switch\<close>.\<close>

definition opcodes :: "nat set" where
  "opcodes =
     {0, 2, 3, 4, 5, 16, 17, 18, 19, 20, 21, 22, 23, 32, 64, 65, 66, 67, 68, 48, 49, 132, 133,
      96, 80}"

text \<open>
  One round of \<^verbatim>\<open>for (var index = 0; index < processedBytes.length;)\<close>: the test, the
  fetch \<^verbatim>\<open>processedBytes[index++]\<close> and the \<^verbatim>\<open>switch\<close>. Leaving the loop returns
  \<^verbatim>\<open>undefined\<close>. An element fetched at a negative index is \<^verbatim>\<open>undefined\<close> and matches
  no label.
\<close>

definition vm_step :: "(vm \<Rightarrow> step) \<Rightarrow> nat list \<Rightarrow> vm \<Rightarrow> step" where
  "vm_step case_67 processedBytes s =
     (if index s < int (length processedBytes) then
        (case fetch processedBytes (index s) of
           None \<Rightarrow> Continue (s\<lparr>index := index s + 1\<rparr>)
         | Some instructionSet \<Rightarrow>
             exec case_67 processedBytes instructionSet (s\<lparr>index := index s + 1\<rparr>))
      else Halt (Returned Undefined (tokenCarrier s)))"

text \<open>The loop, bounded by the number of rounds it may take: \<^term>\<open>None\<close> when the
  bound is reached before the function returns or raises.\<close>

fun vm_run :: "(vm \<Rightarrow> step) \<Rightarrow> nat list \<Rightarrow> nat \<Rightarrow> vm \<Rightarrow> outcome option" where
  "vm_run case_67 processedBytes 0 s = None"
| "vm_run case_67 processedBytes (Suc fuel) s =
     (case vm_step case_67 processedBytes s of
        Halt r \<Rightarrow> Some r
      | Continue s' \<Rightarrow> vm_run case_67 processedBytes fuel s')"

definition initial_vm :: "carrier \<Rightarrow> vm" where
  "initial_vm c = \<lparr>index = 0, mainStack = [], backupStack = [], tokenCarrier = c\<rparr>"

definition senpa_processVMBytecode :: "nat \<Rightarrow> nat list \<Rightarrow> carrier \<Rightarrow> outcome option" where
  "senpa_processVMBytecode fuel byteCode c = vm_run senpa_case_67 byteCode fuel (initial_vm c)"

definition tricksplit_processVMBytecode :: "nat \<Rightarrow> nat list \<Rightarrow> carrier \<Rightarrow> outcome option" where
  "tricksplit_processVMBytecode fuel byteCode c =
     vm_run tricksplit_case_67 byteCode fuel (initial_vm c)"

section \<open>Helper lemmas\<close>

declare processDecryptionKeys_loop.simps [simp del]
declare decrypt_loop.simps [simp del]

subsection \<open>Bytes of 32-bit results\<close>

lemma scast8_of_u32: "(scast (w :: u32) :: u8) = ucast w"
  by (rule bit_word_eqI) (auto simp add: bit_simps)

lemma ucast8_of_int32: "(ucast (word_of_int a :: u32) :: u8) = word_of_int a"
  by (rule bit_word_eqI) (simp add: bit_simps)

lemma word8_of_js_xor: "(word_of_int (js_xor a b) :: u8) = word_of_int a XOR word_of_int b"
proof -
  have "(ucast ((word_of_int a :: u32) XOR word_of_int b) :: u8) = word_of_int a XOR word_of_int b"
    by (rule bit_word_eqI) (simp add: bit_simps)
  then show ?thesis by (simp add: js_xor_def scast8_of_u32)
qed

lemma word8_of_js_and_255: "(word_of_int (js_and a 0xFF) :: u8) = word_of_int a"
proof -
  have m: "(255 :: u32) = mask 8" by (simp add: mask_eq_decr_exp)
  have "(ucast ((word_of_int a :: u32) AND mask 8) :: u8) = word_of_int a"
    by (rule bit_word_eqI) (simp add: bit_simps)
  then show ?thesis by (simp add: js_and_def scast8_of_u32 m)
qed

lemma word8_of_to32BitSignedInt: "(word_of_int (to32BitSignedInt a) :: u8) = word_of_int a"
  by (simp add: to32BitSignedInt_def scast8_of_u32 ucast8_of_int32)

lemma decrypt_byte_inverts:
  "(word_of_int (js_and (js_xor k (uint (word_of_int (js_xor (uint b) k) :: u8))) 0xFF) :: u8) = b"
  by (simp add: word8_of_js_and_255 word8_of_js_xor ac_simps)

subsection \<open>The guard of the activation\<close>

lemma strictly_equals_NaN_never [simp]: "strictly_equals_NaN t = False"
  by (cases t) simp_all

lemma processServerKeys_enables:
  assumes "length packet mod 4 = 0"
  shows "\<exists>reply s'. processServerKeys s packet = Inr (reply, s') \<and>
           encryptionEnabled s' \<and> decryptionKeys s' = decryptionKeys s"
  using assms by (simp add: processServerKeys_def Let_def)

subsection \<open>The generator\<close>

lemma lcg_calls_from:
  "0 < m \<Longrightarrow>
   lcg_calls n (Closure (lcg_state k) m) =
     Inr (map (\<lambda>j. drop_bit 33 (lcg_state j) mod m) [Suc k..<Suc (k + n)],
          Closure (lcg_state (k + n)) m)"
proof (induction n arbitrary: k)
  case 0
  then show ?case by simp
next
  case (Suc n)
  have "lcg_calls n (Closure (lcg_state (Suc k)) m) =
          Inr (map (\<lambda>j. drop_bit 33 (lcg_state j) mod m) [Suc (Suc k)..<Suc (Suc k + n)],
               Closure (lcg_state (Suc k + n)) m)"
    using Suc.IH [of "Suc k"] Suc.prems by simp
  moreover have "[Suc k..<Suc (k + Suc n)] = Suc k # [Suc (Suc k)..<Suc (Suc k + n)]"
    by (simp add: upt_conv_Cons)
  ultimately show ?case
    using Suc.prems by (simp add: Let_def)
qed

lemma lcg_state_closed_form: "lcg_state n * (multiplier - 1) + 1 = multiplier ^ n"
proof (induction n)
  case 0
  then show ?case by simp
next
  case (Suc n)
  obtain p where p: "multiplier = Suc p"
    by (cases multiplier) (simp_all add: multiplier_def)
  have "lcg_state (Suc n) * (multiplier - 1) + 1 =
          (lcg_state n * (multiplier - 1) + 1) * multiplier"
    by (simp add: p algebra_simps)
  then show ?case by (simp only: Suc.IH power_Suc2)
qed

subsection \<open>The decryption-key loop\<close>

lemma processDecryptionKeys_loop_from:
  assumes "length keys = 65"
  shows "k \<le> 32 \<Longrightarrow>
    processDecryptionKeys_loop keys (2 * k + 1) acc =
      Inr (acc @ map (\<lambda>i. to32BitSignedInt (js_xor (uint (keys ! (2 * i + 2))) 0xb2)) [k..<32])"
proof (induction "32 - k" arbitrary: k acc)
  case 0
  then have "k = 32" by simp
  then show ?case by (simp add: processDecryptionKeys_loop.simps)
next
  case (Suc n)
  then have k: "k < 32" by simp
  have IH: "processDecryptionKeys_loop keys (2 * Suc k + 1) acc' =
      Inr (acc' @ map (\<lambda>i. to32BitSignedInt (js_xor (uint (keys ! (2 * i + 2))) 0xb2)) [Suc k..<32])"
    for acc'
    using Suc.hyps(1) [of "Suc k" acc'] Suc.hyps(2) k by simp
  have "processDecryptionKeys_loop keys (2 * k + 1) acc =
      processDecryptionKeys_loop keys (2 * Suc k + 1)
        (acc @ [to32BitSignedInt (js_xor (uint (keys ! (2 * k + 2))) 0xb2)])"
    using k assms by (subst processDecryptionKeys_loop.simps) (simp add: getUint8_def)
  also have "\<dots> = Inr ((acc @ [to32BitSignedInt (js_xor (uint (keys ! (2 * k + 2))) 0xb2)]) @
      map (\<lambda>i. to32BitSignedInt (js_xor (uint (keys ! (2 * i + 2))) 0xb2)) [Suc k..<32])"
    by (rule IH)
  also have "\<dots> = Inr (acc @
      map (\<lambda>i. to32BitSignedInt (js_xor (uint (keys ! (2 * i + 2))) 0xb2)) [k..<32])"
    using k by (simp add: upt_conv_Cons)
  finally show ?case .
qed

lemma processDecryptionKeys_65:
  assumes "length keys = 65"
  shows "processDecryptionKeys s keys =
     Inr (s\<lparr>decryptionKeys := Uint8Table (map (\<lambda>i. keys ! (2 * i + 2) XOR 0xB2) [0..<32])\<rparr>)"
proof -
  have "processDecryptionKeys_loop keys 1 [] =
      Inr (map (\<lambda>i. to32BitSignedInt (js_xor (uint (keys ! (2 * i + 2))) 0xb2)) [0..<32])"
    using processDecryptionKeys_loop_from [OF assms, of 0 "[]"] by simp
  then show ?thesis
    by (simp add: processDecryptionKeys_def word8_of_to32BitSignedInt word8_of_js_xor)
qed

subsection \<open>The cipher\<close>

lemma length_decrypt_bytes: "length (decrypt_bytes keys j cs) = length cs"
  by (induction cs arbitrary: j) (simp_all add: Let_def)

lemma decrypt_encrypt_bytes:
  "decrypt_bytes (Uint8Table ks) j (encrypt_loop (Uint8Keys ks) (length ks) msg j) = msg"
proof (induction msg arbitrary: j)
  case Nil
  then show ?case by simp
next
  case (Cons b msg)
  show ?case
    by (simp add: Let_def decrypt_byte_inverts Cons.IH)
qed

lemma decrypt_loop_effect:
  "a < length h \<Longrightarrow> i \<le> length (h ! a) \<Longrightarrow> n = length (h ! a) \<Longrightarrow>
   decrypt_loop keys n h a idx i =
     h[a := take i (h ! a) @ decrypt_bytes keys idx (drop i (h ! a))]"
proof (induction keys n h a idx i rule: decrypt_loop.induct)
  case (1 keys n h a idx i)
  show ?case
  proof (cases "i < n")
    case False
    with 1 show ?thesis by (simp add: decrypt_loop.simps list_update_same_conv)
  next
    case True
    define k where "k = (if Some idx \<noteq> table_length keys then idx else 0)"
    define v :: u8 where
      "v = word_of_int (js_and (js_xor (undefined_as_zero (table_get keys k)) (uint (h ! a ! i))) 0xFF)"
    define h' where "h' = h[a := (h ! a)[i := v]]"
    have len: "a < length h'" "Suc i \<le> length (h' ! a)" "n = length (h' ! a)"
      using 1 True by (simp_all add: h'_def)
    have step: "decrypt_loop keys n h a idx i = decrypt_loop keys n h' a (k + 1) (i + 1)"
      using True by (subst decrypt_loop.simps) (simp add: Let_def k_def v_def h'_def)
    have IH: "decrypt_loop keys n h' a (k + 1) (i + 1) =
        h'[a := take (i + 1) (h' ! a) @ decrypt_bytes keys (k + 1) (drop (i + 1) (h' ! a))]"
      using "1.IH" [OF True refl refl refl refl] len
      by (simp add: k_def v_def h'_def)
    have d: "drop i (h ! a) = (h ! a ! i) # drop (Suc i) (h ! a)"
      using True 1 by (simp add: Cons_nth_drop_Suc)
    have t: "take (Suc i) ((h ! a)[i := v]) = take i (h ! a) @ [v]"
      using True 1 by (simp add: take_Suc_conv_app_nth)
    have "decrypt_loop keys n h a idx i =
        h'[a := take (Suc i) (h' ! a) @ decrypt_bytes keys (k + 1) (drop (Suc i) (h' ! a))]"
      using step IH by simp
    also have "\<dots> = h[a := take i (h ! a) @ v # decrypt_bytes keys (k + 1) (drop (Suc i) (h ! a))]"
      using "1.prems" True by (simp add: h'_def t)
    also have "take i (h ! a) @ v # decrypt_bytes keys (k + 1) (drop (Suc i) (h ! a)) =
        take i (h ! a) @ decrypt_bytes keys idx (drop i (h ! a))"
      by (simp add: d Let_def k_def v_def)
    finally show ?thesis .
  qed
qed

lemma decryptMessage_effect:
  assumes "encryptionEnabled s" "a < length h" "h ! a = b0 # cs"
  shows "decryptMessage s h a =
     Inr (length h,
          h[a := b0 # decrypt_bytes (decryptionKeys s) (unat b0) cs] @
          [decrypt_bytes (decryptionKeys s) (unat b0) cs])"
proof -
  have "decrypt_loop (decryptionKeys s) (length (h ! a)) h a (unat b0) 1 =
      h[a := take 1 (h ! a) @ decrypt_bytes (decryptionKeys s) (unat b0) (drop 1 (h ! a))]"
    using assms by (intro decrypt_loop_effect) simp_all
  then show ?thesis
    using assms by (simp add: decryptMessage_def Let_def)
qed

text \<open>The round trip for a generator of any modulus from 1 to 256, whatever the length of
  the key array.\<close>

lemma roundtrip_bounded_modulus:
  assumes "encryptionEnabled s" and "encryptionKeys s = Uint8Keys ks"
    and "decryptionKeys s = Uint8Table ks"
    and "customMersenneTwister s = Closure st m" and "0 < m" and "m \<le> 256"
  shows "\<exists>c s' p h'. encryptMessage s msg = (Inr c, s') \<and>
           decryptMessage s' (h @ [c]) (length h) = Inr (p, h') \<and> h' ! p = msg"
proof -
  define v where "v = drop_bit 33 (st * multiplier + 1) mod m"
  define s' where "s' = s\<lparr>customMersenneTwister := Closure (st * multiplier + 1) m\<rparr>"
  define c where "c = (of_nat v :: u8) # encrypt_loop (Uint8Keys ks) (length ks) msg v"
  have enc: "encryptMessage s msg = (Inr c, s')"
    using assms by (simp add: encryptMessage_def Let_def v_def s'_def c_def)
  have "v < 256" using assms by (simp add: v_def less_le_trans [OF mod_less_divisor])
  then have v: "unat (of_nat v :: u8) = v" by (simp add: unat_of_nat)
  have en: "encryptionEnabled s'" "decryptionKeys s' = Uint8Table ks"
    using assms by (simp_all add: s'_def)
  have "decryptMessage s' (h @ [c]) (length h) =
     Inr (length (h @ [c]),
          (h @ [c])[length h := of_nat v # decrypt_bytes (decryptionKeys s') (unat (of_nat v :: u8))
             (encrypt_loop (Uint8Keys ks) (length ks) msg v)] @
          [decrypt_bytes (decryptionKeys s') (unat (of_nat v :: u8))
             (encrypt_loop (Uint8Keys ks) (length ks) msg v)])"
    using en by (intro decryptMessage_effect) (simp_all add: c_def)
  then have "decryptMessage s' (h @ [c]) (length h) =
     Inr (Suc (length h), (h @ [c])[length h := of_nat v # msg] @ [msg])"
    by (simp add: en v decrypt_encrypt_bytes)
  moreover have "((h @ [c])[length h := of_nat v # msg] @ [msg]) ! Suc (length h) = msg"
    by (simp add: nth_append)
  ultimately show ?thesis using enc by blast
qed

subsection \<open>The handshake of Variant B\<close>

lemma generateRandomSeed_clamp:
  "generateRandomSeed now =
     (if - 2147483648000 < now \<and> now < 2147483648000 then now div 1000 else - 2147483648)"
proof -
  have "\<lfloor>(of_int now :: rat) / 1000\<rfloor> = now div 1000"
    using floor_divide_of_int_eq [of now 1000, where ?'a = rat] by simp
  moreover have "\<bar>(of_int now :: rat) / 1000\<bar> < 2147483648 \<longleftrightarrow>
      - 2147483648000 < now \<and> now < 2147483648000"
  proof -
    have "\<bar>(of_int now :: rat) / 1000\<bar> < 2147483648 \<longleftrightarrow> \<bar>(of_int now :: rat)\<bar> < 2147483648000"
      by (simp add: abs_divide divide_less_eq)
    also have "\<dots> \<longleftrightarrow> (of_int \<bar>now\<bar> :: rat) < of_int 2147483648000"
      by simp
    also have "\<dots> \<longleftrightarrow> \<bar>now\<bar> < 2147483648000"
      by (simp only: of_int_less_iff)
    finally show ?thesis by auto
  qed
  ultimately show ?thesis by (simp add: generateRandomSeed_def Let_def)
qed

lemma generateRandomSecureKeys_eq: "generateRandomSecureKeys r1 r2 = (uint r1, uint r2)"
proof -
  have "uint r < 4294967296" for r :: u32
    using uint_lt2p [of r] by simp
  then show ?thesis
    by (simp add: generateRandomSecureKeys_def getRandomValue_def checkAndFloorUnsignedInt32_def
        toUnsignedInt32_def not_le)
qed

lemma ToInt32_frac_of_int: "ToInt32_frac (of_int k) = word_of_int k"
  by (simp add: ToInt32_frac_def)

lemma ToInt32_frac_divide:
  assumes "0 < d"
  shows "ToInt32_frac (of_int x / of_int d) =
     word_of_int (if 0 \<le> x then x div d else - ((- x) div d))"
proof (cases "0 \<le> x")
  case True
  then have "\<not> (of_int x / of_int d :: rat) < 0"
    using assms by (simp add: not_less)
  then show ?thesis
    using True by (simp add: ToInt32_frac_def floor_divide_of_int_eq)
next
  case False
  then have neg: "(of_int x / of_int d :: rat) < 0"
    using assms by (simp add: divide_neg_pos)
  have "\<lceil>(of_int x / of_int d :: rat)\<rceil> = - \<lfloor>(of_int (- x) / of_int d :: rat)\<rfloor>"
    by (simp add: ceiling_def)
  also have "\<dots> = - ((- x) div d)"
    by (simp only: floor_divide_of_int_eq)
  finally show ?thesis
    using False neg by (simp add: ToInt32_frac_def)
qed

lemma store_xor_frac:
  "(word_of_int (toUnsignedInt32 (xor_frac a b)) :: u32) = ToInt32_frac a XOR ToInt32_frac b"
  by (simp add: toUnsignedInt32_def xor_frac_def)

lemma ToInt32_frac_xor_frac:
  "ToInt32_frac (of_int (xor_frac a b)) = ToInt32_frac a XOR ToInt32_frac b"
  by (simp only: xor_frac_def ToInt32_frac_of_int) simp

lemma ToInt32_frac_uint: "ToInt32_frac (of_int (uint (r :: u32))) = r"
  by (simp only: ToInt32_frac_of_int) simp

subsection \<open>The virtual machine\<close>

lemma exec_unknown: "v \<notin> opcodes \<Longrightarrow> exec case_67 processedBytes v s = Continue s"
  by (simp add: exec_def opcodes_def)

lemma vm_step_unknown:
  assumes "v \<notin> opcodes" and "fetch processedBytes (index s) = Some v"
  shows "vm_step case_67 processedBytes s = Continue (s\<lparr>index := index s + 1\<rparr>)"
proof -
  have "index s < int (length processedBytes)"
    using assms(2) by (simp add: fetch_def split: if_splits)
  then show ?thesis
    using assms by (simp add: vm_step_def exec_unknown)
qed

lemma run_unknown_96_80:
  assumes "v \<notin> opcodes"
  shows "vm_run senpa_case_67 [v, 96, 80] (Suc (Suc (Suc n))) (initial_vm c) =
           Some (Returned (Num (Fin 0)) c)"
proof -
  have 1: "vm_step senpa_case_67 [v, 96, 80] (initial_vm c) = Continue ((initial_vm c)\<lparr>index := 1\<rparr>)"
    using vm_step_unknown [OF assms, of "[v, 96, 80]" "initial_vm c" senpa_case_67]
    by (simp add: fetch_def initial_vm_def)
  have 2: "vm_step senpa_case_67 [v, 96, 80] ((initial_vm c)\<lparr>index := 1\<rparr>) =
      Continue ((initial_vm c)\<lparr>index := 2, mainStack := [Num (Fin 0)]\<rparr>)"
    by (simp add: vm_step_def fetch_def initial_vm_def exec_def case_96_def)
  have 3: "vm_step senpa_case_67 [v, 96, 80] ((initial_vm c)\<lparr>index := 2, mainStack := [Num (Fin 0)]\<rparr>) =
      Halt (Returned (Num (Fin 0)) c)"
    by (simp add: vm_step_def fetch_def initial_vm_def exec_def case_80_def)
  show ?thesis by (simp add: 1 2 3)
qed

lemma literal_step_132:
  "vm_step senpa_case_67 [132, 1, 0, 0, 0, 80] (initial_vm c) =
     Continue \<lparr>index = 5, mainStack = [Num (Fin 1)], backupStack = [], tokenCarrier = c\<rparr>"
  by (simp add: vm_step_def fetch_def initial_vm_def exec_def case_132_def inline_word_def)

lemma literal_step_80:
  "vm_step senpa_case_67 [132, 1, 0, 0, 0, 80]
     \<lparr>index = 5, mainStack = [Num (Fin 1)], backupStack = [], tokenCarrier = c\<rparr> =
     Halt (Returned (Num (Fin 1)) c)"
  by (simp add: vm_step_def fetch_def exec_def case_80_def)

lemma literal_run:
  "vm_run senpa_case_67 [132, 1, 0, 0, 0, 80] (Suc (Suc n)) (initial_vm c) =
     Some (Returned (Num (Fin 1)) c)"
  by (simp only: vm_run.simps literal_step_132 literal_step_80 step.case)

lemma case_67_agree:
  "tricksplit_case_67 s = senpa_case_67 s
   \<or> tricksplit_case_67 s = Halt (Threw TypeError (tokenCarrier s))
   \<or> tricksplit_case_67 s = Halt Unmodelled"
  by (simp add: tricksplit_case_67_def senpa_case_67_def split: prod.splits lookup.splits)

lemma exec_agree:
  "exec tricksplit_case_67 bs op s = exec senpa_case_67 bs op s
   \<or> op = 67 \<and>
     (exec tricksplit_case_67 bs op s = Halt (Threw TypeError (tokenCarrier s))
      \<or> exec tricksplit_case_67 bs op s = Halt Unmodelled)"
  using case_67_agree [of s] by (simp add: exec_def)

lemma vm_step_agree:
  "vm_step tricksplit_case_67 bs s = vm_step senpa_case_67 bs s
   \<or> fetch bs (index s) = Some 67 \<and>
     (vm_step tricksplit_case_67 bs s = Halt (Threw TypeError (tokenCarrier s))
      \<or> vm_step tricksplit_case_67 bs s = Halt Unmodelled)"
  using exec_agree [of bs _ "s\<lparr>index := index s + 1\<rparr>"]
  by (auto simp add: vm_step_def split: option.splits)

lemma vm_run_agree:
  "vm_run tricksplit_case_67 bs fuel s = vm_run senpa_case_67 bs fuel s
   \<or> (\<exists>c'. vm_run tricksplit_case_67 bs fuel s = Some (Threw TypeError c'))
   \<or> vm_run tricksplit_case_67 bs fuel s = Some Unmodelled"
proof (induction fuel arbitrary: s)
  case 0
  then show ?case by simp
next
  case (Suc fuel)
  from vm_step_agree [of bs s] show ?case
  proof (elim disjE conjE)
    assume eq: "vm_step tricksplit_case_67 bs s = vm_step senpa_case_67 bs s"
    show ?thesis
    proof (cases "vm_step senpa_case_67 bs s")
      case (Continue s')
      with eq Suc.IH [of s'] show ?thesis by simp
    next
      case (Halt r)
      with eq show ?thesis by simp
    qed
  qed simp_all
qed

text \<open>
  How far the two interpreters can differ. For every bytecode, token carrier and number of
  rounds, either they have the same outcome, or the one of \<^verbatim>\<open>tricksplit.js\<close> has
  stopped, with a TypeError or at a read that depends on the host. A single round differs
  only at opcode 67, and the read \<^verbatim>\<open>popTwo[popOne]\<close> raises exactly on a receiver
  \<^verbatim>\<open>undefined\<close> or \<^verbatim>\<open>null\<close> (under a key that is not an object).
\<close>

lemma interpreters_agree_up_to_lookup:
  "(tricksplit_processVMBytecode fuel byteCode c = senpa_processVMBytecode fuel byteCode c
    \<or> (\<exists>c'. tricksplit_processVMBytecode fuel byteCode c = Some (Threw TypeError c'))
    \<or> tricksplit_processVMBytecode fuel byteCode c = Some Unmodelled)
   \<and> (vm_step tricksplit_case_67 byteCode s = vm_step senpa_case_67 byteCode s
      \<or> fetch byteCode (index s) = Some 67 \<and>
        (vm_step tricksplit_case_67 byteCode s = Halt (Threw TypeError (tokenCarrier s))
         \<or> vm_step tricksplit_case_67 byteCode s = Halt Unmodelled))
   \<and> (property_read popTwo popOne = Raises \<longleftrightarrow>
        (popTwo = Undefined \<or> popTwo = Null) \<and> primitive popOne)"
proof -
  have "property_read popTwo popOne = Raises \<longleftrightarrow>
      (popTwo = Undefined \<or> popTwo = Null) \<and> primitive popOne"
    by (cases popTwo) (simp_all add: property_read_def)
  then show ?thesis
    using vm_run_agree [of byteCode fuel "initial_vm c"] vm_step_agree [of byteCode s]
    by (simp only: tricksplit_processVMBytecode_def senpa_processVMBytecode_def simp_thms)
qed

section \<open>Claims\<close>

text \<open>
  C1. The claim: the cipher of Variant A is never active before both the 65-byte and the
  16-byte server packet have been processed; a 16-byte packet alone must leave it inactive.
  The code does not keep it. \<^verbatim>\<open>processServerKeys\<close> guards the activation by
  \<^verbatim>\<open>this.decryptionKeys !== NaN\<close>, which holds for every value, so a new session that
  receives one 16-byte packet (here sixteen zero bytes) ends with \<^verbatim>\<open>encryptionEnabled\<close>
  set while \<^verbatim>\<open>decryptionKeys\<close> is still \<^verbatim>\<open>NaN\<close>.
\<close>

theorem onMessage_16_bytes_enables_cipher:
  "onMessage constructor [[0, 0, 0, 0, 0, 0, 0, 0, 0, 0, 0, 0, 0, 0, 0, 0]] 0 =
     Inr ([SocketSend (buffer_of_u32s [420, 69, 420, 69])],
          [[0, 0, 0, 0, 0, 0, 0, 0, 0, 0, 0, 0, 0, 0, 0, 0]],
          constructor\<lparr> encryptionKeys := Uint8Keys (buffer_of_u32s [0, 0, 0, 0, 420, 69, 420, 69]),
             solvedSecret := Fin 420,
             customMersenneTwister := Lcg64Bit 32,
             encryptionEnabled := True \<rparr>)
   \<and> decryptionKeys constructor = TableNaN
   \<and> encryptionEnabled constructor = False"
  by (simp add: onMessage_def constructor_def processServerKeys_def auth_value_def js_xor_def
      js_ushr_def to32BitSignedInt_def word_at_def u32_of_bytes_def buffer_of_u32s_def
      bytes_of_u32_def Lcg64Bit_def)

text \<open>
  C2, as amended. For every 65-byte packet \<^verbatim>\<open>processDecryptionKeys\<close> stores a table of 32
  entries, and entry \<open>i\<close> is the byte at offset \<open>2 * i + 2\<close> XOR \<open>0xB2\<close>: the loop advances
  its index twice per round, so it reads the even offsets 2, 4, ..., 64.
\<close>

theorem processDecryptionKeys_table:
  assumes "length keys = 65"
  shows "processDecryptionKeys s keys =
           Inr (s\<lparr>decryptionKeys :=
                    Uint8Table (map (\<lambda>i. keys ! (2 * i + 2) XOR 0xB2) [0..<32])\<rparr>)
         \<and> length (map (\<lambda>i. keys ! (2 * i + 2) XOR 0xB2) [0..<32]) = 32"
  using processDecryptionKeys_65 [OF assms] by simp

text \<open>Witness for C2: the packet whose byte at offset \<open>i\<close> is \<open>i\<close>.\<close>

theorem processDecryptionKeys_table_witness:
  "length ([0, 1, 2, 3, 4, 5, 6, 7, 8, 9, 10, 11, 12, 13, 14, 15, 16, 17, 18, 19, 20, 21, 22, 23, 24,
      25, 26, 27, 28, 29, 30, 31, 32, 33, 34, 35, 36, 37, 38, 39, 40, 41, 42, 43, 44, 45, 46, 47,
      48, 49, 50, 51, 52, 53, 54, 55, 56, 57, 58, 59, 60, 61, 62, 63, 64] :: u8 list) = 65
   \<and> processDecryptionKeys constructor
       [0, 1, 2, 3, 4, 5, 6, 7, 8, 9, 10, 11, 12, 13, 14, 15, 16, 17, 18, 19, 20, 21, 22, 23, 24,
      25, 26, 27, 28, 29, 30, 31, 32, 33, 34, 35, 36, 37, 38, 39, 40, 41, 42, 43, 44, 45, 46, 47,
      48, 49, 50, 51, 52, 53, 54, 55, 56, 57, 58, 59, 60, 61, 62, 63, 64] =
     Inr (constructor\<lparr>decryptionKeys := Uint8Table
       [176, 182, 180, 186, 184, 190, 188, 162, 160, 166, 164, 170, 168, 174, 172, 146, 144, 150,
        148, 154, 152, 158, 156, 130, 128, 134, 132, 138, 136, 142, 140, 242]\<rparr>)"
  using processDecryptionKeys_table [of "[0, 1, 2, 3, 4, 5, 6, 7, 8, 9, 10, 11, 12, 13, 14, 15, 16, 17, 18, 19, 20, 21, 22, 23, 24,
      25, 26, 27, 28, 29, 30, 31, 32, 33, 34, 35, 36, 37, 38, 39, 40, 41, 42, 43, 44, 45, 46, 47,
      48, 49, 50, 51, 52, 53, 54, 55, 56, 57, 58, 59, 60, 61, 62, 63, 64]" constructor]
  by (simp add: upt_conv_Cons)

text \<open>
  Counterexample to C2 as stated (64 entries, entry \<open>i\<close> from offset \<open>i + 1\<close>): on the same
  packet the table has 32 entries, and entry 0 is not byte 1 XOR \<open>0xB2\<close>.
\<close>

theorem processDecryptionKeys_table_not_64:
  "processDecryptionKeys constructor
       [0, 1, 2, 3, 4, 5, 6, 7, 8, 9, 10, 11, 12, 13, 14, 15, 16, 17, 18, 19, 20, 21, 22, 23, 24,
      25, 26, 27, 28, 29, 30, 31, 32, 33, 34, 35, 36, 37, 38, 39, 40, 41, 42, 43, 44, 45, 46, 47,
      48, 49, 50, 51, 52, 53, 54, 55, 56, 57, 58, 59, 60, 61, 62, 63, 64] =
     Inr (constructor\<lparr>decryptionKeys := Uint8Table
       [176, 182, 180, 186, 184, 190, 188, 162, 160, 166, 164, 170, 168, 174, 172, 146, 144, 150,
        148, 154, 152, 158, 156, 130, 128, 134, 132, 138, 136, 142, 140, 242]\<rparr>)
   \<and> length ([176, 182, 180, 186, 184, 190, 188, 162, 160, 166, 164, 170, 168, 174, 172, 146, 144, 150,
        148, 154, 152, 158, 156, 130, 128, 134, 132, 138, 136, 142, 140, 242] :: u8 list) = 32
   \<and> ([176, 182, 180, 186, 184, 190, 188, 162, 160, 166, 164, 170, 168, 174, 172, 146, 144, 150,
        148, 154, 152, 158, 156, 130, 128, 134, 132, 138, 136, 142, 140, 242] :: u8 list) ! 0 \<noteq> ([0, 1, 2, 3, 4, 5, 6, 7, 8, 9, 10, 11, 12, 13, 14, 15, 16, 17, 18, 19, 20, 21, 22, 23, 24,
      25, 26, 27, 28, 29, 30, 31, 32, 33, 34, 35, 36, 37, 38, 39, 40, 41, 42, 43, 44, 45, 46, 47,
      48, 49, 50, 51, 52, 53, 54, 55, 56, 57, 58, 59, 60, 61, 62, 63, 64] :: u8 list) ! 1 XOR 0xB2"
  by (simp add: processDecryptionKeys_def processDecryptionKeys_loop.simps getUint8_def
      to32BitSignedInt_def js_xor_def)

text \<open>
  C3, as amended. Round trip of the stream cipher, for key arrays of 1 to 256 bytes. In a
  session whose cipher is enabled, whose encryption-key array and decryption-key table hold
  the same bytes \<open>ks\<close>, with \<open>1 \<le> length ks \<le> 256\<close>, and whose generator was made over the
  length of the key array (as \<^verbatim>\<open>processServerKeys\<close> makes it) and is in any state,
  \<^verbatim>\<open>encryptMessage\<close> returns a packet \<open>c\<close>, and \<^verbatim>\<open>decryptMessage\<close> on the buffer
  holding \<open>c\<close> returns a buffer holding the plaintext, for every plaintext of every length.
\<close>

theorem decrypt_encrypt_roundtrip:
  assumes "encryptionEnabled s" and "encryptionKeys s = Uint8Keys ks"
    and "decryptionKeys s = Uint8Table ks"
    and "customMersenneTwister s = Closure st (length ks)"
    and "0 < length ks" and "length ks \<le> 256"
  shows "\<exists>c s' p h'. encryptMessage s msg = (Inr c, s') \<and>
           decryptMessage s' (h @ [c]) (length h) = Inr (p, h') \<and> h' ! p = msg"
  using assms by (rule roundtrip_bounded_modulus)

text \<open>Witness for C3: a three-byte key, its generator in the initial state, a four-byte
  message.\<close>

theorem decrypt_encrypt_roundtrip_witness:
  "encryptionEnabled (constructor\<lparr>encryptionKeys := Uint8Keys [1, 2, 3],
       decryptionKeys := Uint8Table [1, 2, 3], customMersenneTwister := Closure 0 3,
       encryptionEnabled := True\<rparr>)
   \<and> encryptionKeys (constructor\<lparr>encryptionKeys := Uint8Keys [1, 2, 3],
       decryptionKeys := Uint8Table [1, 2, 3], customMersenneTwister := Closure 0 3,
       encryptionEnabled := True\<rparr>) = Uint8Keys [1, 2, 3]
   \<and> decryptionKeys (constructor\<lparr>encryptionKeys := Uint8Keys [1, 2, 3],
       decryptionKeys := Uint8Table [1, 2, 3], customMersenneTwister := Closure 0 3,
       encryptionEnabled := True\<rparr>) = Uint8Table [1, 2, 3]
   \<and> customMersenneTwister (constructor\<lparr>encryptionKeys := Uint8Keys [1, 2, 3],
       decryptionKeys := Uint8Table [1, 2, 3], customMersenneTwister := Closure 0 3,
       encryptionEnabled := True\<rparr>) = Closure 0 (length [1, 2, 3 :: u8])
   \<and> 0 < length [1, 2, 3 :: u8] \<and> length [1, 2, 3 :: u8] \<le> 256
   \<and> (\<exists>c s' p h'. encryptMessage (constructor\<lparr>encryptionKeys := Uint8Keys [1, 2, 3],
       decryptionKeys := Uint8Table [1, 2, 3], customMersenneTwister := Closure 0 3,
       encryptionEnabled := True\<rparr>) [10, 20, 30, 40] = (Inr c, s') \<and>
         decryptMessage s' ([] @ [c]) (length ([] :: heap)) = Inr (p, h') \<and>
         h' ! p = [10, 20, 30, 40])"
  using decrypt_encrypt_roundtrip [of "constructor\<lparr>encryptionKeys := Uint8Keys [1, 2, 3],
       decryptionKeys := Uint8Table [1, 2, 3], customMersenneTwister := Closure 0 3,
       encryptionEnabled := True\<rparr>" "[1, 2, 3]" 0 "[10, 20, 30, 40]" "[]"]
  by (simp add: constructor_def)

text \<open>
  Counterexample to C3 as stated (every key-byte array). With a key array of 300 bytes, zero
  but for a 1 at index 266, and the generator made over its length after its first call, the
  next index drawn is 266; the packet's index byte holds \<open>266 mod 256 = 10\<close>, so the message
  \<open>[5]\<close> is encrypted under key 266 to \<open>[10, 4]\<close> and decrypted from key 10 to \<open>[4]\<close>. With an
  empty key array the generator made over its length has modulus 0, and \<^verbatim>\<open>encryptMessage\<close>
  raises a RangeError.
\<close>

theorem roundtrip_fails_outside_1_to_256:
  "length (replicate 266 0 @ 1 # replicate 33 (0 :: u8)) = 300
   \<and> computeNextLCGValue (Lcg64Bit 300) = (Inr 0, Closure 1 300)
   \<and> encryptMessage
       (constructor\<lparr>encryptionKeys := Uint8Keys (replicate 266 0 @ 1 # replicate 33 0),
          decryptionKeys := Uint8Table (replicate 266 0 @ 1 # replicate 33 0),
          customMersenneTwister := Closure 1 300, encryptionEnabled := True\<rparr>) [5] =
     (Inr [10, 4],
      constructor\<lparr>encryptionKeys := Uint8Keys (replicate 266 0 @ 1 # replicate 33 0),
          decryptionKeys := Uint8Table (replicate 266 0 @ 1 # replicate 33 0),
          customMersenneTwister := Closure 6364136223846793006 300,
          encryptionEnabled := True\<rparr>)
   \<and> decryptMessage
       (constructor\<lparr>encryptionKeys := Uint8Keys (replicate 266 0 @ 1 # replicate 33 0),
          decryptionKeys := Uint8Table (replicate 266 0 @ 1 # replicate 33 0),
          customMersenneTwister := Closure 6364136223846793006 300,
          encryptionEnabled := True\<rparr>)
       [[10, 4]] 0 = Inr (1, [[10, 4], [4]])
   \<and> encryptMessage
       (constructor\<lparr>encryptionKeys := Uint8Keys [], decryptionKeys := Uint8Table [],
          customMersenneTwister := Lcg64Bit (length ([] :: u8 list)),
          encryptionEnabled := True\<rparr>) [5] =
     (Inl RangeError,
      constructor\<lparr>encryptionKeys := Uint8Keys [], decryptionKeys := Uint8Table [],
          customMersenneTwister := Closure 1 0, encryptionEnabled := True\<rparr>)"
  by (simp add: encryptMessage_def decryptMessage_def decrypt_loop.simps constructor_def
      Lcg64Bit_def multiplier_def drop_bit_eq_div nth_append js_xor_def js_and_def Let_def)

text \<open>
  C4. Key derivation, concrete scenario. With \<^verbatim>\<open>encryptionKeys[0..3] = [1,2,3,4]\<close> and a
  16-byte server packet holding the little-endian words 5, 6, 7, 8, \<^verbatim>\<open>processServerKeys\<close>
  replies with the words 416, 67, 419, 77, stores them as \<^verbatim>\<open>encryptionKeys[4..7]\<close> (the
  array is then the 32-byte view of the eight words) and sets \<^verbatim>\<open>solvedSecret\<close> to 417;
  the seed it derives them from is \<open>1 ^ 2 = 3\<close>.
\<close>

theorem processServerKeys_scenario:
  "processServerKeys (s\<lparr>encryptionKeys := Uint32Keys [1, 2, 3, 4, a, b, c, d]\<rparr>)
       [5, 0, 0, 0, 6, 0, 0, 0, 7, 0, 0, 0, 8, 0, 0, 0] =
     Inr (buffer_of_u32s [416, 67, 419, 77],
          s\<lparr> encryptionKeys := Uint8Keys (buffer_of_u32s [1, 2, 3, 4, 416, 67, 419, 77]),
             solvedSecret := Fin 417,
             customMersenneTwister := Lcg64Bit 32,
             encryptionEnabled := True \<rparr>)
   \<and> js_xor 1 2 = 3
   \<and> auth_value (Some 5) 3 1 420 = 416 \<and> auth_value (Some 6) 3 2 69 = 67
   \<and> auth_value (Some 7) 3 3 420 = 419 \<and> auth_value (Some 8) 3 4 69 = 77
   \<and> js_xor 419 2 = 417"
  by (simp add: processServerKeys_def auth_value_def js_xor_def js_ushr_def
      to32BitSignedInt_def word_at_def u32_of_bytes_def buffer_of_u32s_def bytes_of_u32_def
      Lcg64Bit_def)

text \<open>
  C5. The generator made by \<^verbatim>\<open>Lcg64Bit(m)\<close> starts from state 0; one call replaces the
  state \<open>st\<close> by \<open>st * 6364136223846793005 + 1\<close>, in exact arithmetic, and returns that
  state shifted right by 33 bits, modulo \<open>m\<close>. Hence the outputs of the first \<open>n\<close> calls are
  a function of \<open>m\<close> and the position alone: output \<open>j\<close> is computed from \<open>lcg_state j\<close>,
  the \<open>j\<close>-fold iterate from 0, which is \<open>(M^j - 1) / (M - 1)\<close> for the multiplier \<open>M\<close>.
\<close>

theorem Lcg64Bit_sequence:
  assumes "0 < m"
  shows "Lcg64Bit m = Closure 0 m
         \<and> computeNextLCGValue (Closure st m) =
             (Inr ((st * 6364136223846793005 + 1) div 2 ^ 33 mod m),
              Closure (st * 6364136223846793005 + 1) m)
         \<and> lcg_calls n (Lcg64Bit m) =
             Inr (map (\<lambda>j. lcg_state j div 2 ^ 33 mod m) [1..<Suc n], Closure (lcg_state n) m)
         \<and> lcg_state n * (6364136223846793005 - 1) + 1 = 6364136223846793005 ^ n"
proof -
  have "lcg_calls n (Lcg64Bit m) =
      Inr (map (\<lambda>j. drop_bit 33 (lcg_state j) mod m) [1..<Suc n], Closure (lcg_state n) m)"
    using lcg_calls_from [OF assms, of n 0] by (simp add: Lcg64Bit_def)
  moreover have "lcg_state n * (6364136223846793005 - 1) + 1 = 6364136223846793005 ^ n"
    using lcg_state_closed_form [of n] by (simp only: multiplier_def)
  ultimately show ?thesis
    using assms by (simp add: Lcg64Bit_def multiplier_def Let_def drop_bit_eq_div)
qed

text \<open>Witness for C5: the first three outputs for the modulus 32 are 0, 22 and 7.\<close>

theorem Lcg64Bit_sequence_witness:
  "(0 :: nat) < 32
   \<and> lcg_calls (Suc (Suc (Suc 0))) (Lcg64Bit 32) =
       Inr ([0, 22, 7], Closure 40502229875678917809088234847163723031 32)"
  using Lcg64Bit_sequence [of 32 0 "Suc (Suc (Suc 0))"]
  by (simp add: multiplier_def upt_conv_Cons)

text \<open>
  C6. The handshake packet of Variant B. For every clock value and every two random words
  \<open>r1\<close>, \<open>r2\<close>, \<^verbatim>\<open>first()\<close> builds the words
  \<open>p0 = timestamp ^ 0x0FF1D296\<close>,
  \<open>p1 = r1 ^ (((timestamp ^ 0x0FF1C1A1) / 2) ^ 0x1A4)\<close> and
  \<open>p2 = r2 ^ (((timestamp ^ 0x0FF1C1A1) / 4) ^ 0x45)\<close>, and sets the key to the signed
  \<open>r2 ^ r1\<close>. The timestamp is the clock in whole seconds when that lies inside the signed
  32-bit range and \<open>-2^31\<close> otherwise. The quotient is the quotient of numbers; the XOR keeps
  its integer part, rounded towards zero, in 32 bits.
\<close>

theorem first_packet:
  "first now r1 r2 =
     (let timestamp =
            (if - 2147483648000 < now \<and> now < 2147483648000 then now div 1000
             else - 2147483648);
          x = sint ((word_of_int timestamp :: u32) XOR 0x0FF1C1A1)
      in ([word_of_int timestamp XOR 0x0FF1D296,
           r1 XOR (word_of_int (if 0 \<le> x then x div 2 else - ((- x) div 2)) XOR 0x1A4),
           r2 XOR (word_of_int (if 0 \<le> x then x div 4 else - ((- x) div 4)) XOR 0x45)],
          sint (r2 XOR r1)))"
proof -
  have d2: "ToInt32_frac (of_int x / 2) = word_of_int (if 0 \<le> x then x div 2 else - ((- x) div 2))" for x
    using ToInt32_frac_divide [of 2 x] by simp
  have d4: "ToInt32_frac (of_int x / 4) = word_of_int (if 0 \<le> x then x div 4 else - ((- x) div 4))" for x
    using ToInt32_frac_divide [of 4 x] by simp
  have c1: "ToInt32_frac 0x1a4 = 0x1a4" and c2: "ToInt32_frac 0x45 = 0x45"
    using ToInt32_frac_of_int [of 420] ToInt32_frac_of_int [of 69] by simp_all
  have p0: "(word_of_int (toUnsignedInt32 (js_xor t 0xff1d296)) :: u32) = word_of_int t XOR 0x0FF1D296" for t
    by (simp add: toUnsignedInt32_def js_xor_def)
  have k: "js_xor (uint r2) (uint r1) = sint (r2 XOR r1)"
    by (simp add: js_xor_def)
  have x: "js_xor t 0xff1c1a1 = sint ((word_of_int t :: u32) XOR 0x0FF1C1A1)" for t
    by (simp add: js_xor_def)
  show ?thesis
    unfolding first_def generateRandomSecureKeys_eq Let_def prod.case store_xor_frac
      ToInt32_frac_xor_frac d2 d4 c1 c2 ToInt32_frac_uint p0 k x generateRandomSeed_clamp
    by (simp only: xor.assoc)
qed

text \<open>
  C7. An opcode value \<open>v\<close> outside the instruction table is a no-op: the round that fetches
  it changes nothing but the cursor, which moves past it. In particular the bytecode
  \<open>[v, 96, 80]\<close> returns 0, without an error, as soon as the loop is given its three rounds.
\<close>

theorem unknown_opcode_is_noop:
  assumes "v \<notin> opcodes"
  shows "(fetch processedBytes (index s) = Some v \<longrightarrow>
            vm_step senpa_case_67 processedBytes s = Continue (s\<lparr>index := index s + 1\<rparr>))
         \<and> (3 \<le> fuel \<longrightarrow>
            senpa_processVMBytecode fuel [v, 96, 80] c = Some (Returned (Num (Fin 0)) c))"
proof (intro conjI impI)
  assume "fetch processedBytes (index s) = Some v"
  with assms show "vm_step senpa_case_67 processedBytes s = Continue (s\<lparr>index := index s + 1\<rparr>)"
    by (rule vm_step_unknown)
next
  assume "3 \<le> fuel"
  then obtain n where "fuel = Suc (Suc (Suc n))"
    by (metis Suc_le_D numeral_3_eq_3 Suc_le_mono)
  then show "senpa_processVMBytecode fuel [v, 96, 80] c = Some (Returned (Num (Fin 0)) c)"
    using run_unknown_96_80 [OF assms] by (simp add: senpa_processVMBytecode_def)
qed

text \<open>Witness for C7: the value 1 is in no \<^verbatim>\<open>case\<close> label.\<close>

theorem unknown_opcode_is_noop_witness:
  "(1 :: nat) \<notin> opcodes
   \<and> fetch [1, 96, 80] (index (initial_vm [])) = Some 1
   \<and> vm_step senpa_case_67 [1, 96, 80] (initial_vm []) =
       Continue ((initial_vm [])\<lparr>index := index (initial_vm []) + 1\<rparr>)
   \<and> (3 :: nat) \<le> 3
   \<and> senpa_processVMBytecode 3 [1, 96, 80] [] = Some (Returned (Num (Fin 0)) [])"
  using unknown_opcode_is_noop [of 1 "[1, 96, 80]" "initial_vm []" 3 "[]"]
  by (simp add: opcodes_def fetch_def initial_vm_def)

text \<open>
  C8. Literal push and return. On the bytecode \<open>[132, 1, 0, 0, 0, 80]\<close> the first round
  (opcode 132) reads the four inline bytes as the little-endian integer 1, pushes it and
  leaves the cursor at 5, after them; the second round (opcode 80) pops and returns it. So
  \<^verbatim>\<open>processVMBytecode\<close> returns 1 as soon as the loop is given its two rounds.
\<close>

theorem literal_push_return:
  assumes "2 \<le> fuel"
  shows "senpa_processVMBytecode fuel [132, 1, 0, 0, 0, 80] c = Some (Returned (Num (Fin 1)) c)
         \<and> vm_step senpa_case_67 [132, 1, 0, 0, 0, 80] (initial_vm c) =
             Continue \<lparr>index = 5, mainStack = [Num (Fin 1)], backupStack = [], tokenCarrier = c\<rparr>
         \<and> vm_step senpa_case_67 [132, 1, 0, 0, 0, 80]
             \<lparr>index = 5, mainStack = [Num (Fin 1)], backupStack = [], tokenCarrier = c\<rparr> =
             Halt (Returned (Num (Fin 1)) c)"
proof -
  from assms obtain n where "fuel = Suc (Suc n)"
    by (metis Suc_le_D numeral_2_eq_2 Suc_le_mono)
  then have "senpa_processVMBytecode fuel [132, 1, 0, 0, 0, 80] c = Some (Returned (Num (Fin 1)) c)"
    by (simp only: senpa_processVMBytecode_def literal_run)
  then show ?thesis
    by (simp only: literal_step_132 literal_step_80 simp_thms)
qed

text \<open>Witness for C8: two rounds, an empty token carrier.\<close>

theorem literal_push_return_witness:
  "(2 :: nat) \<le> 2
   \<and> senpa_processVMBytecode 2 [132, 1, 0, 0, 0, 80] [] = Some (Returned (Num (Fin 1)) [])"
  using literal_push_return [of 2 "[]"] by simp

text \<open>
  C9. The claim: the interpreter of \<^verbatim>\<open>senpaAuth.js\<close> and the interpreter of
  \<^verbatim>\<open>tricksplit.js\<close> return the same result and leave the token carrier in the same
  state on every bytecode, errors included. The code does not keep it. On the bytecode
  \<open>[67, 80]\<close> opcode 67 finds an empty stack, so key and receiver are \<^verbatim>\<open>undefined\<close>:
  \<^verbatim>\<open>tricksplit.js\<close> raises a TypeError at \<^verbatim>\<open>var result = popTwo[popOne]\<close>, a read
  whose result it never uses, while \<^verbatim>\<open>senpaAuth.js\<close>, which has no such statement, pushes
  0 and returns it.
\<close>

theorem interpreters_differ_on_67:
  "tricksplit_processVMBytecode 2 [67, 80] c = Some (Threw TypeError c)
   \<and> senpa_processVMBytecode 2 [67, 80] c = Some (Returned (Num (Fin 0)) c)"
  by (simp add: tricksplit_processVMBytecode_def senpa_processVMBytecode_def numeral_2_eq_2
      vm_step_def fetch_def initial_vm_def exec_def tricksplit_case_67_def senpa_case_67_def
      property_read_def resolve_def case_80_def js_string_def)

text \<open>
  C10. \<^verbatim>\<open>decryptMessage\<close> works in place. With the cipher enabled and a ciphertext buffer
  of \<open>n \<ge> 1\<close> bytes at address \<open>a\<close> (index byte \<open>b0\<close>, then \<open>cs\<close>), the call returns the
  address of a new buffer, one that was not in the store; afterwards the caller's buffer holds
  \<open>b0\<close> followed by the \<open>n - 1\<close> plaintext bytes, the new buffer holds those plaintext bytes,
  and every other buffer is as before.
\<close>

theorem decryptMessage_in_place:
  assumes "encryptionEnabled s" and "a < length h" and "h ! a = b0 # cs"
  shows "let plain = decrypt_bytes (decryptionKeys s) (unat b0) cs;
             h' = h[a := b0 # plain] @ [plain]
         in decryptMessage s h a = Inr (length h, h')
            \<and> length plain = length cs
            \<and> h' ! a = b0 # plain
            \<and> h' ! length h = plain
            \<and> (\<forall>a'. a' < length h \<and> a' \<noteq> a \<longrightarrow> h' ! a' = h ! a')"
  using assms
  by (simp add: Let_def decryptMessage_effect length_decrypt_bytes nth_append)

text \<open>Witness for C10: a store of two buffers, the second one decrypted under the key
  table \<open>[1, 2, 3]\<close> from the index 1.\<close>

theorem decryptMessage_in_place_witness:
  "encryptionEnabled (constructor\<lparr>decryptionKeys := Uint8Table [1, 2, 3], encryptionEnabled := True\<rparr>) \<and> (1 :: nat) < length [[9], [1, 10, 20, 30, 40 :: u8]]
   \<and> [[9], [1, 10, 20, 30, 40 :: u8]] ! 1 = 1 # [10, 20, 30, 40]
   \<and> decryptMessage (constructor\<lparr>decryptionKeys := Uint8Table [1, 2, 3], encryptionEnabled := True\<rparr>) [[9], [1, 10, 20, 30, 40]] 1 =
       Inr (2, [[9], [1, 8, 23, 31, 42], [8, 23, 31, 42]])"
  using decryptMessage_in_place [of "constructor\<lparr>decryptionKeys := Uint8Table [1, 2, 3], encryptionEnabled := True\<rparr>" 1 "[[9], [1, 10, 20, 30, 40]]" 1 "[10, 20, 30, 40]"]
  by (simp add: Let_def js_and_def js_xor_def)

end
